theory Spec2Isabelle
  imports Complex_Main "HOL-Library.Sublist"
begin

section \<open>JavaScript values used by the application\<close>

text \<open>
  A JavaScript number is modelled as a finite real, \<open>NaN\<close>, or one of the two
  infinities. Rounding of IEEE doubles is not modelled: the program only adds 2 to integers,
  divides by 60 and takes floors, which is exact on the integers it handles.
\<close>

datatype jsnum = Num real | NaN | PosInf | NegInf

text \<open>\<open>String(n)\<close> for an integral number: decimal digits, a leading minus sign when negative.\<close>

definition digit_char :: "nat \<Rightarrow> char" where
  "digit_char d = ''0123456789'' ! d"

fun digits :: "nat \<Rightarrow> string" where
  "digits n = (if n < 10 then [digit_char n] else digits (n div 10) @ [digit_char (n mod 10)])"

declare digits.simps [simp del]

definition String_int :: "int \<Rightarrow> string" where
  "String_int i = (if i < 0 then CHR ''-'' # digits (nat (- i)) else digits (nat i))"

text \<open>\<open>s.padStart(n, c)\<close> with a one-character filler.\<close>

definition padStart :: "nat \<Rightarrow> char \<Rightarrow> string \<Rightarrow> string" where
  "padStart n c s = replicate (n - length s) c @ s"

text \<open>
  The remainder operator \<open>%\<close> of JavaScript truncates the quotient towards zero, so the
  result has the sign of the dividend.
\<close>

definition js_trunc :: "real \<Rightarrow> int" where
  "js_trunc r = (if 0 \<le> r then \<lfloor>r\<rfloor> else \<lceil>r\<rceil>)"

definition js_rem :: "real \<Rightarrow> real \<Rightarrow> real" where
  "js_rem x y = x - y * of_int (js_trunc (x / y))"

definition js_rem_int :: "int \<Rightarrow> int \<Rightarrow> int" where
  "js_rem_int a b = (if 0 \<le> a then a mod b else - ((- a) mod b))"

text \<open>\<open>Math.round\<close>: the nearest integer, halves rounded towards plus infinity.\<close>

definition Math_round :: "real \<Rightarrow> int" where
  "Math_round r = \<lfloor>r + 1 / 2\<rfloor>"

section \<open>Timestamp formatting\<close>

text \<open>
  \<open>formatTimestamp\<close> of the analyzer service (floor first, then integer division and
  remainder). On non-finite input every arithmetic step yields \<open>NaN\<close> or an infinity, whose
  string forms are written out.
\<close>

definition mm_ss :: "int \<Rightarrow> int \<Rightarrow> string" where
  "mm_ss minutes seconds =
     padStart 2 (CHR ''0'') (String_int minutes) @ '':'' @ padStart 2 (CHR ''0'') (String_int seconds)"

fun formatTimestamp :: "jsnum \<Rightarrow> string" where
  "formatTimestamp (Num totalSeconds) =
     (let flooredSeconds = \<lfloor>totalSeconds\<rfloor>;
          minutes = \<lfloor>real_of_int flooredSeconds / 60\<rfloor>;
          seconds = js_rem_int flooredSeconds 60
      in mm_ss minutes seconds)"
| "formatTimestamp NaN = ''NaN:NaN''"
| "formatTimestamp PosInf = ''Infinity:NaN''"
| "formatTimestamp NegInf = ''-Infinity:NaN''"

text \<open>
  \<open>formatDuration\<close> of the UI shell: \<open>null\<close> and \<open>NaN\<close> give the fixed string, otherwise
  minutes are the floor of the quotient and seconds the floor of the remainder.
\<close>

fun formatDuration :: "jsnum option \<Rightarrow> string" where
  "formatDuration None = ''00:00''"
| "formatDuration (Some NaN) = ''00:00''"
| "formatDuration (Some (Num totalSeconds)) =
     (let minutes = \<lfloor>totalSeconds / 60\<rfloor>;
          seconds = \<lfloor>js_rem totalSeconds 60\<rfloor>
      in mm_ss minutes seconds)"
| "formatDuration (Some PosInf) = ''Infinity:NaN''"
| "formatDuration (Some NegInf) = ''-Infinity:NaN''"

text \<open>
  Reading a timestamp back, as the round-trip property of the specification does:
  two decimal digits, a colon, two decimal digits, valued \<open>60 * mm + ss\<close>.
\<close>

definition is_digit :: "char \<Rightarrow> bool" where
  "is_digit c = (c \<in> set ''0123456789'')"

definition digit_val :: "char \<Rightarrow> nat" where
  "digit_val c = length (takeWhile (\<lambda>d. d \<noteq> c) ''0123456789'')"

fun parse_mm_ss :: "string \<Rightarrow> nat option" where
  "parse_mm_ss [a, b, c, d, e] =
     (if is_digit a \<and> is_digit b \<and> c = CHR '':'' \<and> is_digit d \<and> is_digit e
      then Some (60 * (10 * digit_val a + digit_val b) + (10 * digit_val d + digit_val e))
      else None)"
| "parse_mm_ss _ = None"

section \<open>Data model\<close>

text \<open>The records of \<open>types.ts\<close>. Errors are JavaScript \<open>Error\<close> objects, kept as their message.\<close>

record VideoFrame =
  frame_timestamp :: int
  imageData :: string

record Transcription =
  timestamp :: string
  entry_text :: string

datatype AppStatus = Idle | Processing | Success | Error

type_synonym js_error = string

definition newline :: char where
  "newline = CHR 0x0A"

text \<open>\<open>Array.prototype.join\<close> on strings.\<close>

fun js_join :: "string \<Rightarrow> string list \<Rightarrow> string" where
  "js_join sep [] = []"
| "js_join sep [x] = x"
| "js_join sep (x # y # ys) = x @ sep @ js_join sep (y # ys)"

section \<open>Result formatter\<close>

text \<open>
  The memoised \<open>formattedText\<close> of the UI shell. Its inputs are the dependencies of the memo:
  the status, the transcription list and the video duration. A non-empty JavaScript string
  is truthy, the empty one is falsy.
\<close>

definition entry_line :: "Transcription \<Rightarrow> string" where
  "entry_line item = timestamp item @ '' '' @ entry_text item"

definition durationLine :: "jsnum option \<Rightarrow> string" where
  "durationLine videoDuration = ''clip length '' @ formatDuration videoDuration"

definition formattedText :: "AppStatus \<Rightarrow> Transcription list \<Rightarrow> jsnum option \<Rightarrow> string" where
  "formattedText status transcriptions videoDuration =
     (if status \<noteq> Success then []
      else let transcriptionLines = js_join [newline] (map entry_line transcriptions)
           in if transcriptionLines \<noteq> []
              then transcriptionLines @ [newline] @ durationLine videoDuration
              else durationLine videoDuration)"

section \<open>Frame sampler\<close>

text \<open>
  A video file as the sampler sees it: the duration the media element reports, whether its
  metadata can be loaded at all, at which seek targets the element reports an error, and the
  JPEG data of the picture at each position. The playback position after a seek to a
  target inside the clip is the target itself.
\<close>

record video_file =
  file_name :: string
  duration :: jsnum
  metadata_loads :: bool
  decode_error_at :: "real \<Rightarrow> bool"
  picture :: "real \<Rightarrow> string"

definition FRAME_EXTRACTION_INTERVAL :: real where
  "FRAME_EXTRACTION_INTERVAL = 2"

text \<open>The comparison \<open>currentTime > duration\<close>; any comparison with \<open>NaN\<close> is false.\<close>

fun js_greater :: "real \<Rightarrow> jsnum \<Rightarrow> bool" where
  "js_greater x (Num d) = (d < x)"
| "js_greater x NaN = False"
| "js_greater x PosInf = False"
| "js_greater x NegInf = True"

text \<open>
  The mutual callbacks \<open>captureFrame\<close> and \<open>onseeked\<close> form a loop over the sampling cursor.
  The result is \<open>None\<close> when the promise never settles, \<open>Some (Inl e)\<close> when it is rejected
  and \<open>Some (Inr frames)\<close> when it is resolved.
\<close>

partial_function (option) captureFrame ::
  "video_file \<Rightarrow> real \<Rightarrow> VideoFrame list \<Rightarrow> (js_error + VideoFrame list) option" where
  "captureFrame v currentTime frames =
     (if js_greater currentTime (duration v) then Some (Inr frames)
      else if decode_error_at v currentTime then Some (Inl ''Error processing video file.'')
      else captureFrame v (currentTime + FRAME_EXTRACTION_INTERVAL)
             (frames @ [\<lparr>frame_timestamp = Math_round currentTime,
                          imageData = picture v currentTime\<rparr>]))"

text \<open>
  The error handler of the video element is installed inside \<open>onloadedmetadata\<close>; when the
  metadata never loads, the promise is neither resolved nor rejected.
\<close>

definition extractFramesFromVideo ::
  "bool \<Rightarrow> video_file \<Rightarrow> (js_error + VideoFrame list) option" where
  "extractFramesFromVideo canvas_context videoFile =
     (if \<not> canvas_context then Some (Inl ''Canvas context is not available.'')
      else if \<not> metadata_loads videoFile then None
      else captureFrame videoFile 0 [])"

section \<open>AI client adapter\<close>

text \<open>
  Batch transcription. The model call together with \<open>JSON.parse\<close> of its answer is the
  parameter \<open>ai\<close>: it fails with a message or yields the raw \<open>(timestamp, text)\<close> pairs.
  The second component of the result lists the frame sequences sent to the model.
\<close>

type_synonym raw_result = "jsnum \<times> string"

definition format_result :: "raw_result \<Rightarrow> Transcription" where
  "format_result result = \<lparr>timestamp = formatTimestamp (fst result), entry_text = snd result\<rparr>"

definition analyzeVideoForText ::
  "bool \<Rightarrow> (VideoFrame list \<Rightarrow> js_error + raw_result list) \<Rightarrow> video_file
     \<Rightarrow> (js_error + Transcription list) option \<times> VideoFrame list list" where
  "analyzeVideoForText canvas_context ai videoFile =
     (case extractFramesFromVideo canvas_context videoFile of
        None \<Rightarrow> (None, [])
      | Some (Inl e) \<Rightarrow> (Some (Inl e), [])
      | Some (Inr frames) \<Rightarrow>
          if length frames = 0
          then (Some (Inl ''Could not extract any frames from the video.''), [])
          else (case ai frames of
                  Inl e \<Rightarrow> (Some (Inl e), [frames])
                | Inr rawResults \<Rightarrow> (Some (Inr (map format_result rawResults)), [frames])))"

text \<open>
  The response of an image request, as far as the adapter reads it: optional candidates,
  optional content, optional parts, and in a part an optional inline blob. The media type
  and the payload of a blob are optional fields too.
\<close>

record Blob =
  mimeType :: "string option"
  data :: "string option"

record Part =
  part_text :: "string option"
  inlineData :: "Blob option"

record Content =
  parts :: "Part list option"

record Candidate =
  content :: "Content option"

record Response =
  candidates :: "Candidate list option"

text \<open>
  The \<open>for\<close> loop over the parts. It returns the payload of the first part whose inline
  blob has a media type starting with \<open>image/\<close>; the payload is \<open>undefined\<close> (here \<open>None\<close>)
  when the blob has none. The test calls \<open>startsWith\<close> on the media type without a guard,
  so a blob without a media type makes the loop throw a \<open>TypeError\<close>.
\<close>

datatype scan_outcome = Returned "string option" | NotFound | Thrown js_error

definition startsWith_of_undefined :: js_error where
  "startsWith_of_undefined =
     ''Cannot read properties of undefined (reading '' @ [CHR 0x27] @ ''startsWith''
       @ [CHR 0x27] @ '')''"

fun first_image :: "Part list \<Rightarrow> scan_outcome" where
  "first_image [] = NotFound"
| "first_image (p # ps) =
     (case inlineData p of
        None \<Rightarrow> first_image ps
      | Some b \<Rightarrow>
          (case mimeType b of
             None \<Rightarrow> Thrown startsWith_of_undefined
           | Some m \<Rightarrow> if prefix ''image/'' m then Returned (data b) else first_image ps))"

text \<open>The guarded access \<open>response.candidates[0].content.parts\<close> followed by the loop.\<close>

definition scan_response :: "Response \<Rightarrow> scan_outcome" where
  "scan_response response =
     (case candidates response of
        None \<Rightarrow> NotFound
      | Some cs \<Rightarrow>
          (case cs of
             [] \<Rightarrow> NotFound
           | c # _ \<Rightarrow>
               (case content c of
                  None \<Rightarrow> NotFound
                | Some ct \<Rightarrow> (case parts ct of None \<Rightarrow> NotFound | Some ps \<Rightarrow> first_image ps))))"

text \<open>
  A string that is tested with \<open>trim\<close> or sent as an instruction is kept as its UTF-16 code
  units, since the white space of \<open>trim\<close> lies outside the 8-bit characters.
\<close>

type_synonym js_string = "nat list"

definition code_units :: "string \<Rightarrow> js_string" where
  "code_units str = map of_char str"

text \<open>An image request: model name, the inline image (media type and payload), the instruction.\<close>

record image_request =
  model :: string
  image_mimeType :: string
  image_data :: string
  instruction :: js_string

type_synonym image_service = "image_request \<Rightarrow> js_error + Response"

definition isolate_text_instruction :: string where
  "isolate_text_instruction =
     ''From this image, extract ONLY text and numbers.'' @ [newline] @
     ''- Render the extracted text and numbers in white color. The text must be sharp and clear, not blurry.'' @ [newline] @
     ''- Place them on a solid, uniform green background.'' @ [newline] @
     ''- Remove ALL other visual elements, including the original background, logos, UI elements, etc.'' @ [newline] @
     ''- Specifically ensure the term '' @ [CHR 0x22] @ ''NotebookLM'' @ [CHR 0x22] @ '' is removed if present.'' @ [newline] @
     ''- The final output image must ONLY contain the white text/numbers on the solid green background.''"

definition no_generated_image :: js_error where
  "no_generated_image =
     ''Could not find generated image in the API response. The request may have been blocked due to safety policies.''"

definition no_edited_image :: js_error where
  "no_edited_image =
     ''Could not find edited image in the API response. The request may have been blocked due to safety policies.''"

definition processFrameForTextExtraction ::
  "image_service \<Rightarrow> string \<Rightarrow> js_error + string option" where
  "processFrameForTextExtraction generateContent base64FrameData =
     (case generateContent \<lparr>model = ''gemini-2.5-flash-image'', image_mimeType = ''image/jpeg'',
                             image_data = base64FrameData, instruction = code_units isolate_text_instruction\<rparr> of
        Inl e \<Rightarrow> Inl e
      | Inr response \<Rightarrow>
          (case scan_response response of
             Returned d \<Rightarrow> Inr d
           | NotFound \<Rightarrow> Inl no_generated_image
           | Thrown e \<Rightarrow> Inl e))"

definition editImage ::
  "image_service \<Rightarrow> string \<Rightarrow> string \<Rightarrow> js_string \<Rightarrow> js_error + string option" where
  "editImage generateContent base64ImageData mimeType' prompt =
     (case generateContent \<lparr>model = ''gemini-2.5-flash-image'', image_mimeType = mimeType',
                             image_data = base64ImageData, instruction = prompt\<rparr> of
        Inl e \<Rightarrow> Inl e
      | Inr response \<Rightarrow>
          (case scan_response response of
             Returned d \<Rightarrow> Inr d
           | NotFound \<Rightarrow> Inl no_edited_image
           | Thrown e \<Rightarrow> Inl e))"

text \<open>
  The parts of the response in the words of the specification: the parts of all candidates;
  a part is an inline image part when it carries an inline blob whose media type starts with
  \<open>image/\<close>.
\<close>

definition candidate_parts :: "Candidate \<Rightarrow> Part list" where
  "candidate_parts c =
     (case content c of None \<Rightarrow> [] | Some ct \<Rightarrow> (case parts ct of None \<Rightarrow> [] | Some ps \<Rightarrow> ps))"

definition all_parts :: "Response \<Rightarrow> Part list" where
  "all_parts response =
     (case candidates response of None \<Rightarrow> [] | Some cs \<Rightarrow> concat (map candidate_parts cs))"

definition is_inline_image :: "Part \<Rightarrow> bool" where
  "is_inline_image p =
     (case inlineData p of
        None \<Rightarrow> False
      | Some b \<Rightarrow> (case mimeType b of None \<Rightarrow> False | Some m \<Rightarrow> prefix ''image/'' m))"

definition payload :: "Part \<Rightarrow> string option" where
  "payload p = (case inlineData p of None \<Rightarrow> None | Some b \<Rightarrow> data b)"

text \<open>A part whose inline blob lacks its media type.\<close>

definition untyped_blob :: "Part \<Rightarrow> bool" where
  "untyped_blob p = (case inlineData p of None \<Rightarrow> False | Some b \<Rightarrow> mimeType b = None)"

section \<open>Timestamp insertion\<close>

text \<open>
  The string operations of JavaScript that the insertion uses, with their clamping of
  positions: \<open>lastIndexOf\<close> searches backwards from \<open>min (max position 0) (length - 1)\<close>,
  \<open>indexOf\<close> forwards from \<open>min (max position 0) length\<close>, both answer \<open>-1\<close> when nothing
  is found; \<open>substring\<close> clamps both ends and swaps them when they are out of order.
\<close>

definition lastIndexOf :: "string \<Rightarrow> char \<Rightarrow> int \<Rightarrow> int" where
  "lastIndexOf text c position =
     (let start = min (max position 0) (int (length text) - 1)
      in case find (\<lambda>i. text ! i = c) (rev [0..<nat (start + 1)]) of
           Some i \<Rightarrow> int i
         | None \<Rightarrow> - 1)"

definition indexOf :: "string \<Rightarrow> char \<Rightarrow> int \<Rightarrow> int" where
  "indexOf text c position =
     (let start = min (max position 0) (int (length text))
      in case find (\<lambda>i. text ! i = c) [nat start..<length text] of
           Some i \<Rightarrow> int i
         | None \<Rightarrow> - 1)"

definition substring :: "string \<Rightarrow> int \<Rightarrow> int \<Rightarrow> string" where
  "substring text a b =
     (let len = int (length text);
          a' = min (max a 0) len;
          b' = min (max b 0) len;
          from = min a' b';
          to = max a' b'
      in take (nat (to - from)) (drop (nat from) text))"

definition substring_from :: "string \<Rightarrow> int \<Rightarrow> string" where
  "substring_from text a = substring text a (int (length text))"

text \<open>The regular expression \<open>/^\d{2}:\d{2}/\<close>: its test, and the replacement of its match.\<close>

fun timestampRegex_test :: "string \<Rightarrow> bool" where
  "timestampRegex_test (a # b # c # d # e # rest) =
     (is_digit a \<and> is_digit b \<and> c = CHR '':'' \<and> is_digit d \<and> is_digit e)"
| "timestampRegex_test _ = False"

text \<open>
  The replacement string is always an output of \<open>formatDuration\<close>, which holds no dollar
  sign, so the replacement patterns of \<open>String.prototype.replace\<close> never apply.
\<close>

definition timestampRegex_replace :: "string \<Rightarrow> string \<Rightarrow> string" where
  "timestampRegex_replace line timeToInsert =
     (if timestampRegex_test line then timeToInsert @ drop 5 line else line)"

definition lineStartIndex :: "string \<Rightarrow> int \<Rightarrow> int" where
  "lineStartIndex text cursorPosition = lastIndexOf text newline (cursorPosition - 1) + 1"

definition lineEndIndex :: "string \<Rightarrow> int \<Rightarrow> int" where
  "lineEndIndex text cursorPosition =
     (let i = indexOf text newline cursorPosition in if i = - 1 then int (length text) else i)"


text \<open>
  The body of \<open>handleInsertTimestamp\<close> on the text, the selection of the text area and the
  formatted time: the new text and the new cursor position.
\<close>

definition insertTimestamp :: "string \<Rightarrow> int \<Rightarrow> int \<Rightarrow> string \<Rightarrow> string \<times> int" where
  "insertTimestamp text selectionStart selectionEnd timeToInsert =
     (let cursorPosition = selectionStart;
          ls = lineStartIndex text cursorPosition;
          le = lineEndIndex text cursorPosition;
          line = substring text ls le
      in if timestampRegex_test line
         then (substring text 0 ls @ timestampRegex_replace line timeToInsert @ substring_from text le,
               ls + int (length timeToInsert))
         else (substring text 0 selectionStart @ timeToInsert @ substring_from text selectionEnd,
               selectionStart + int (length timeToInsert)))"



section \<open>UI shell: the session state\<close>

text \<open>
  The state variables of the \<open>App\<close> component that the operations read and write. Object URLs
  are kept as strings. The progress display, the label of the copy button and the API key field
  are not part of the record.
\<close>

record session =
  videoFile :: "video_file option"
  externalImageFile :: "string option"
  videoDuration :: "jsnum option"
  videoUrl :: "string option"
  capturedFrameUrl :: "string option"
  editedFrameUrl :: "string option"
  videoCurrentTime :: real
  capturedTime :: real
  status :: AppStatus
  transcriptions :: "Transcription list"
  error :: "string option"
  editableText :: string
  isCapturing :: bool
  isCapturingFrame :: bool
  isReWriting :: bool
  isEditing :: bool
  editPrompt :: js_string
  quickEditLoadingKey :: "string option"
  isImagePreviewVisible :: bool
  isReWritePopupOpen :: bool
  isReWritingFromPopup :: bool

definition initial_session :: session where
  "initial_session =
     \<lparr>videoFile = None, externalImageFile = None, videoDuration = None, videoUrl = None,
      capturedFrameUrl = None, editedFrameUrl = None, videoCurrentTime = 0, capturedTime = 0,
      status = Idle, transcriptions = [], error = None, editableText = [],
      isCapturing = False, isCapturingFrame = False, isReWriting = False, isEditing = False,
      editPrompt = [], quickEditLoadingKey = None, isImagePreviewVisible = False,
      isReWritePopupOpen = False, isReWritingFromPopup = False\<rparr>"

definition isAnyTaskRunning :: "session \<Rightarrow> bool" where
  "isAnyTaskRunning s =
     (isCapturing s \<or> isEditing s \<or> isCapturingFrame s \<or> isReWriting s \<or> isReWritingFromPopup s)"

text \<open>
  \<open>videoRef.current\<close>: the video element is rendered inside the result panel, which is shown
  when the status is success, or idle with a file, and a video URL is set.
\<close>

definition videoRef_current :: "session \<Rightarrow> bool" where
  "videoRef_current s =
     ((status s = Success \<or> (status s = Idle \<and> videoFile s \<noteq> None)) \<and> videoUrl s \<noteq> None)"

text \<open>\<open>err.message || fallback\<close>: the empty message is falsy.\<close>

definition message_or :: "js_error \<Rightarrow> string \<Rightarrow> string" where
  "message_or e fallback = (if e = [] then fallback else e)"

text \<open>
  The effect that copies \<open>formattedText\<close> into the editable text. It runs after a render in
  which \<open>formattedText\<close> or the status differs from the previous render, and writes only when
  the status is success.
\<close>

definition formattedText_of :: "session \<Rightarrow> string" where
  "formattedText_of s = formattedText (status s) (transcriptions s) (videoDuration s)"

definition commit :: "session \<Rightarrow> session \<Rightarrow> session" where
  "commit before after =
     (if (formattedText_of after \<noteq> formattedText_of before \<or> status after \<noteq> status before)
         \<and> status after = Success
      then after\<lparr>editableText := formattedText_of after\<rparr>
      else after)"

subsection \<open>Loading files\<close>

text \<open>\<open>handleFileChange\<close> with the chosen file, if any, and the object URL created for it.\<close>

definition handleFileChange :: "video_file option \<Rightarrow> string \<Rightarrow> session \<Rightarrow> session" where
  "handleFileChange file newUrl s =
     (case file of
        None \<Rightarrow> s
      | Some f \<Rightarrow>
          s\<lparr>videoUrl := Some newUrl, videoFile := Some f, status := Idle, transcriptions := [],
            error := None, videoDuration := None, videoCurrentTime := 0, editableText := [],
            capturedFrameUrl := None, editedFrameUrl := None, editPrompt := [],
            externalImageFile := None, isImagePreviewVisible := False\<rparr>)"

text \<open>The two callbacks of the hidden video element created by \<open>handleFileChange\<close>.\<close>

definition onloadedmetadata :: "jsnum \<Rightarrow> session \<Rightarrow> session" where
  "onloadedmetadata d s = s\<lparr>videoDuration := Some d\<rparr>"

definition onerror_metadata :: "session \<Rightarrow> session" where
  "onerror_metadata s = s\<lparr>error := Some ''Could not read video metadata.'', videoDuration := None\<rparr>"

definition handleImageFileChange :: "string option \<Rightarrow> string \<Rightarrow> session \<Rightarrow> session" where
  "handleImageFileChange file newUrl s =
     (case file of
        None \<Rightarrow> s
      | Some f \<Rightarrow>
          s\<lparr>capturedFrameUrl := Some newUrl, editedFrameUrl := None, capturedTime := 0,
            externalImageFile := Some f, editPrompt := [], isImagePreviewVisible := True\<rparr>)"

text \<open>The two callbacks of the file reader started by \<open>handleTextFileChange\<close>.\<close>

definition reader_onload :: "string \<Rightarrow> session \<Rightarrow> session" where
  "reader_onload text s = s\<lparr>editableText := text\<rparr>"

definition reader_onerror :: "session \<Rightarrow> session" where
  "reader_onerror s = s\<lparr>error := Some ''Failed to read the selected text file.'', status := Error\<rparr>"

subsection \<open>Analysis\<close>

text \<open>
  \<open>handleAnalyzeClick\<close> up to its \<open>await\<close>, and its continuation once the promise of
  \<open>analyzeVideoForText\<close> has settled. The first returns the file whose analysis it started.
\<close>

definition handleAnalyzeClick_start :: "session \<Rightarrow> session \<times> video_file option" where
  "handleAnalyzeClick_start s =
     (case videoFile s of
        None \<Rightarrow> (s, None)
      | Some f \<Rightarrow>
          (s\<lparr>status := Processing, error := None, transcriptions := [], editableText := []\<rparr>,
           Some f))"

definition handleAnalyzeClick_settle ::
  "js_error + Transcription list \<Rightarrow> session \<Rightarrow> session" where
  "handleAnalyzeClick_settle outcome s =
     (case outcome of
        Inr results \<Rightarrow> s\<lparr>transcriptions := results, status := Success\<rparr>
      | Inl e \<Rightarrow>
          s\<lparr>error := Some (message_or e ''An unknown error occurred during analysis.''),
            status := Error\<rparr>)"

text \<open>The analyze button is rendered when a file is loaded and disabled while processing.\<close>

definition click_analyze :: "session \<Rightarrow> session \<times> video_file option" where
  "click_analyze s =
     (if videoFile s = None \<or> status s = Processing then (s, None)
      else handleAnalyzeClick_start s)"

subsection \<open>Inserting a timestamp\<close>

text \<open>
  \<open>handleInsertTimestamp\<close> with the selection of the text area, when the text area exists,
  given as positions in the editable text. The second component is the cursor position set
  afterwards.
\<close>

definition handleInsertTimestamp :: "(int \<times> int) option \<Rightarrow> session \<Rightarrow> session \<times> int option" where
  "handleInsertTimestamp textarea s =
     (case textarea of
        None \<Rightarrow> (s, None)
      | Some (selectionStart, selectionEnd) \<Rightarrow>
          (let timeToInsert = formatDuration (Some (Num (videoCurrentTime s)));
               r = insertTimestamp (editableText s) selectionStart selectionEnd timeToInsert
           in (s\<lparr>editableText := fst r\<rparr>, Some (snd r))))"

subsection \<open>The browser and the image service as seen by one operation\<close>

text \<open>
  What an operation obtains from outside the session while it runs: whether a 2D canvas
  context is available, the playback position, the encodings of the drawn frame, object
  URLs for blobs, the outcomes of reading a blob and of fetching a URL, and the image model.
\<close>

record js_blob =
  blob_type :: string
  blob_content :: string

record browser =
  canvas_context :: bool
  video_currentTime :: real
  toDataURL_jpeg :: string
  toBlob_png :: "js_blob option"
  createObjectURL :: "js_blob \<Rightarrow> string"
  blobToBase64 :: "js_blob \<Rightarrow> js_error + string"
  fetch_blob :: "string \<Rightarrow> js_error + js_blob"
  generateContent :: image_service

definition png_data_url :: "string option \<Rightarrow> string" where
  "png_data_url base64 =
     ''data:image/png;base64,'' @ (case base64 of Some d \<Rightarrow> d | None \<Rightarrow> ''undefined'')"

text \<open>The request that \<open>processFrameForTextExtraction\<close> and \<open>editImage\<close> send.\<close>

definition isolate_request :: "string \<Rightarrow> image_request" where
  "isolate_request base64FrameData =
     \<lparr>model = ''gemini-2.5-flash-image'', image_mimeType = ''image/jpeg'',
      image_data = base64FrameData, instruction = code_units isolate_text_instruction\<rparr>"

definition edit_request :: "string \<Rightarrow> string \<Rightarrow> js_string \<Rightarrow> image_request" where
  "edit_request base64ImageData mimeType' prompt =
     \<lparr>model = ''gemini-2.5-flash-image'', image_mimeType = mimeType',
      image_data = base64ImageData, instruction = prompt\<rparr>"

text \<open>
  Turning the payload that the model returned into an object URL; an \<open>undefined\<close> payload
  is spliced into the data URL as the word \<open>undefined\<close>.
\<close>

definition payload_to_url :: "browser \<Rightarrow> string option \<Rightarrow> js_error + string" where
  "payload_to_url b base64 =
     (case fetch_blob b (png_data_url base64) of
        Inl e \<Rightarrow> Inl e
      | Inr newBlob \<Rightarrow> Inr (createObjectURL b newBlob))"

subsection \<open>Capture text\<close>

text \<open>
  Each asynchronous handler is split at its first \<open>await\<close>: the \<open>start\<close> part runs on the
  click and says whether the operation goes on; the \<open>settle\<close> part is the rest of the
  \<open>try\<close> block with \<open>catch\<close> and \<open>finally\<close>, applied to the session as it is then, and lists
  the requests sent to the image model. A failure before the first \<open>await\<close> is caught within
  the \<open>start\<close> part.
\<close>

definition handleCaptureText_start :: "browser \<Rightarrow> session \<Rightarrow> session \<times> bool" where
  "handleCaptureText_start b s =
     (if \<not> videoRef_current s \<or> videoFile s = None \<or> isCapturing s then (s, False)
      else if \<not> canvas_context b
      then (s\<lparr>error := Some (message_or ''Could not get canvas context''
                                  ''An error occurred while capturing the text frame.''),
              isCapturing := False\<rparr>, False)
      else (s\<lparr>isCapturing := True, error := None, capturedTime := video_currentTime b\<rparr>, True))"

definition captureText_try :: "browser \<Rightarrow> js_error + string" where
  "captureText_try b =
     (case processFrameForTextExtraction (generateContent b) (toDataURL_jpeg b) of
        Inl e \<Rightarrow> Inl e
      | Inr processedImageBase64 \<Rightarrow> payload_to_url b processedImageBase64)"

definition handleCaptureText_settle :: "browser \<Rightarrow> session \<Rightarrow> session \<times> image_request list" where
  "handleCaptureText_settle b s =
     (case captureText_try b of
        Inr url \<Rightarrow>
          s\<lparr>capturedFrameUrl := Some url, isImagePreviewVisible := True, editedFrameUrl := None,
            externalImageFile := None, isCapturing := False\<rparr>
      | Inl e \<Rightarrow>
          s\<lparr>error := Some (message_or e ''An error occurred while capturing the text frame.''),
            isCapturing := False\<rparr>,
      [isolate_request (toDataURL_jpeg b)])"

subsection \<open>Re-write frame\<close>

definition reWritePrompt :: string where
  "reWritePrompt =
     ''Analyze the provided image and identify only the text and numbers. Ignore all other visual elements like backgrounds, logos, boxes, and colors. Then, create a new image with the following specifications: 1. The background must be a solid, uniform color: rgb(139, 195, 74). 2. Reproduce the text and numbers you identified from the original image. 3. The style for all text and numbers must be: white color with a black outline. 4. Increase the size of all text and numbers to 1.5 times their original size. 5. Position the enlarged text and numbers on the new background in a layout that is similar to the original and is aesthetically pleasing. The final output image must ONLY contain the styled text and numbers on the specified green background. Nothing else.''"

definition handleReWriteFrame_start :: "browser \<Rightarrow> session \<Rightarrow> session \<times> bool" where
  "handleReWriteFrame_start b s =
     (if \<not> videoRef_current s \<or> videoFile s = None \<or> isAnyTaskRunning s then (s, False)
      else if \<not> canvas_context b
      then (s\<lparr>error := Some (message_or ''Could not get canvas context''
                                  ''An error occurred during the re-write process.''),
              isReWriting := False\<rparr>, False)
      else (s\<lparr>isReWriting := True, error := None\<rparr>, True))"

text \<open>The second stage of the \<open>try\<close> block, after the frame has been shown in the preview.\<close>

definition reWrite_try :: "browser \<Rightarrow> js_blob \<Rightarrow> (js_error + string) \<times> image_request list" where
  "reWrite_try b blob =
     (case blobToBase64 b blob of
        Inl e \<Rightarrow> (Inl e, [])
      | Inr base64Data \<Rightarrow>
          (case editImage (generateContent b) base64Data (blob_type blob)
                  (code_units reWritePrompt) of
             Inl e \<Rightarrow> Inl e
           | Inr editedImageBase64 \<Rightarrow> payload_to_url b editedImageBase64,
           [edit_request base64Data (blob_type blob) (code_units reWritePrompt)]))"

definition handleReWriteFrame_settle :: "browser \<Rightarrow> session \<Rightarrow> session \<times> image_request list" where
  "handleReWriteFrame_settle b s =
     (case toBlob_png b of
        None \<Rightarrow>
          (s\<lparr>error := Some (message_or ''Failed to create blob from canvas.''
                                  ''An error occurred during the re-write process.''),
             isReWriting := False\<rparr>, [])
      | Some blob \<Rightarrow>
          (let s1 = s\<lparr>capturedFrameUrl := Some (createObjectURL b blob),
                       capturedTime := video_currentTime b, isImagePreviewVisible := True,
                       externalImageFile := None, editedFrameUrl := None\<rparr>
           in (case fst (reWrite_try b blob) of
                 Inr newUrl \<Rightarrow> s1\<lparr>editedFrameUrl := Some newUrl, isReWriting := False\<rparr>
               | Inl e \<Rightarrow>
                   s1\<lparr>error := Some (message_or e ''An error occurred during the re-write process.''),
                      isReWriting := False\<rparr>,
               snd (reWrite_try b blob))))"

subsection \<open>Image edits\<close>

definition QUICK_EDIT_PROMPTS :: "(string \<times> string) list" where
  "QUICK_EDIT_PROMPTS =
     [(''BG1'', ''From the provided image, extract only the text and numbers, preserving their original colors and positions. Place them on a solid, uniform background with the color rgb(139, 195, 74). If any text or numbers are inside a box, make the background of that box also rgb(139, 195, 74). The final output should contain only the text, numbers, and the new background. Ensure all text and numbers are sharp and clear.''),
      (''BG2'', ''From the provided image, extract only the text and numbers. Render them in sharp, clear white color. Place them on a solid, uniform background with the color rgb(139, 195, 74). If any text or numbers are inside a box, they must remain within their original boxes. The final output must contain only the white text/numbers and this background.''),
      (''BG3'', ''From the provided image, extract only the text and numbers. Render them in sharp, clear white color. Place them on a solid, uniform green background. If any text or numbers are inside a box, they must remain within their original boxes. The final output must contain only the white text/numbers and this background.''),
      (''LOGO'', ''Remove all logos and the specific text '' @ [CHR 0x27] @ ''NotebookLM'' @ [CHR 0x27] @ '' from the image. The rest of the image should remain unchanged.''),
      (''TEXT_COLOR'', ''Change the color of all text and numbers in the image to white. Ensure they are sharp and clear, not blurry. Do not alter any other part of the image.''),
      (''OUTLINE'', ''Change all text and numbers in the image to be white with a black outline. Ensure they are sharp, clear, and easy to read. Do not alter any other part of the image.''),
      (''DEL_PIC'', ''Remove all pictorial elements from the image, leaving only text, numbers, and the original background. The text and numbers should retain their original colors and positions.'')]"

definition REWRITE_SIZES :: "int list" where
  "REWRITE_SIZES = [80, 90, 100, 110, 120, 130, 140, 150, 175, 200]"

text \<open>
  \<open>!prompt.trim()\<close>: nothing is left once white space is trimmed. The white space of
  \<open>trim\<close> is the white space and the line terminators of ECMAScript.
\<close>

definition is_js_space :: "nat \<Rightarrow> bool" where
  "is_js_space u =
     (u \<in> set [0x0009, 0x000A, 0x000B, 0x000C, 0x000D, 0x0020, 0x00A0, 0x1680,
                0x2028, 0x2029, 0x202F, 0x205F, 0x3000, 0xFEFF]
      \<or> (0x2000 \<le> u \<and> u \<le> 0x200A))"

definition trim_is_empty :: "js_string \<Rightarrow> bool" where
  "trim_is_empty str = list_all is_js_space str"

text \<open>
  The \<open>try\<close> block shared by \<open>performImageEdit\<close> and \<open>handleReWriteFromPopup\<close>: fetch the
  preview image of the closure, encode it, ask the model, make a URL of the answer.
  \<open>fetch\<close> turns a null URL into the string \<open>null\<close>.
\<close>

definition edit_try ::
  "browser \<Rightarrow> string option \<Rightarrow> js_string \<Rightarrow> (js_error + string) \<times> image_request list" where
  "edit_try b url prompt =
     (case fetch_blob b (case url of Some u \<Rightarrow> u | None \<Rightarrow> ''null'') of
        Inl e \<Rightarrow> (Inl e, [])
      | Inr blob \<Rightarrow>
          (case blobToBase64 b blob of
             Inl e \<Rightarrow> (Inl e, [])
           | Inr base64Data \<Rightarrow>
               (case editImage (generateContent b) base64Data (blob_type blob) prompt of
                  Inl e \<Rightarrow> Inl e
                | Inr editedImageBase64 \<Rightarrow> payload_to_url b editedImageBase64,
                [edit_request base64Data (blob_type blob) prompt])))"

definition performImageEdit_start :: "session \<Rightarrow> session" where
  "performImageEdit_start s = s\<lparr>isEditing := True, error := None\<rparr>"

definition performImageEdit_settle ::
  "browser \<Rightarrow> string option \<Rightarrow> js_string \<Rightarrow> session \<Rightarrow> session \<times> image_request list" where
  "performImageEdit_settle b url prompt s =
     (case fst (edit_try b url prompt) of
        Inr newUrl \<Rightarrow> s\<lparr>editedFrameUrl := Some newUrl, isEditing := False, quickEditLoadingKey := None\<rparr>
      | Inl e \<Rightarrow>
          s\<lparr>error := Some (message_or e ''An error occurred while editing the image.''),
            isEditing := False, quickEditLoadingKey := None\<rparr>,
      snd (edit_try b url prompt))"

text \<open>
  \<open>handleEditImage\<close> and \<open>handleQuickEdit\<close>. When they go on, they return the preview URL
  and the prompt of their closure.
\<close>

definition handleEditImage_start ::
  "session \<Rightarrow> session \<times> (string option \<times> js_string) option" where
  "handleEditImage_start s =
     (if capturedFrameUrl s = None \<or> trim_is_empty (editPrompt s) \<or> isEditing s then (s, None)
      else (performImageEdit_start s, Some (capturedFrameUrl s, editPrompt s)))"

definition handleEditImage_settle ::
  "browser \<Rightarrow> string option \<Rightarrow> js_string \<Rightarrow> session \<Rightarrow> session \<times> image_request list" where
  "handleEditImage_settle b url prompt s =
     (let r = performImageEdit_settle b url prompt s in ((fst r)\<lparr>editPrompt := []\<rparr>, snd r))"

definition handleQuickEdit_start ::
  "string \<Rightarrow> session \<Rightarrow> session \<times> (string option \<times> js_string) option" where
  "handleQuickEdit_start key s =
     (case map_of QUICK_EDIT_PROMPTS key of
        None \<Rightarrow> (s, None)
      | Some prompt \<Rightarrow>
          if capturedFrameUrl s = None \<or> prompt = [] \<or> isEditing s then (s, None)
          else (performImageEdit_start (s\<lparr>quickEditLoadingKey := Some key\<rparr>),
                Some (capturedFrameUrl s, code_units prompt)))"

subsection \<open>Re-write from the popup\<close>

definition popupPrompt :: "int \<Rightarrow> string" where
  "popupPrompt size' =
     ''Analyze the provided image and identify only the text and numbers. Ignore all other visual elements like backgrounds, logos, boxes, and colors. Then, create a new image with the following specifications: 1. The background must be a solid, uniform color: rgb(139, 195, 74). 2. Reproduce the text and numbers you identified from the original image. 3. The style for all text and numbers must be: white color with a black outline. 4. Change the size of all text and numbers to ''
     @ String_int size' @
     ''% of their original size. 5. Position the resized text and numbers on the new background in a layout that is similar to the original and is aesthetically pleasing. The final output image must ONLY contain the styled text and numbers on the specified green background. Nothing else. Ensure all text from the original image is present and correct.''"

definition handleReWriteFromPopup_start ::
  "int \<Rightarrow> session \<Rightarrow> session \<times> (string option \<times> js_string) option" where
  "handleReWriteFromPopup_start size' s =
     (if capturedFrameUrl s = None \<or> isAnyTaskRunning s then (s, None)
      else (s\<lparr>isReWritePopupOpen := False, isReWritingFromPopup := True, error := None\<rparr>,
            Some (capturedFrameUrl s, code_units (popupPrompt size'))))"

definition handleReWriteFromPopup_settle ::
  "browser \<Rightarrow> string option \<Rightarrow> js_string \<Rightarrow> session \<Rightarrow> session \<times> image_request list" where
  "handleReWriteFromPopup_settle b url prompt s =
     (case fst (edit_try b url prompt) of
        Inr newUrl \<Rightarrow> s\<lparr>editedFrameUrl := Some newUrl, isReWritingFromPopup := False\<rparr>
      | Inl e \<Rightarrow>
          s\<lparr>error := Some (message_or e ''An error occurred while re-writing the image.''),
            isReWritingFromPopup := False\<rparr>,
      snd (edit_try b url prompt))"

subsection \<open>Capture frame and edit again\<close>

text \<open>
  \<open>handleCaptureFrame\<close> and the callback of \<open>toBlob\<close>. Neither stores an error message:
  without a context or a blob the flag is reset and the handler returns.
\<close>

definition handleCaptureFrame_start :: "browser \<Rightarrow> session \<Rightarrow> session \<times> bool" where
  "handleCaptureFrame_start b s =
     (if \<not> videoRef_current s \<or> videoFile s = None then (s, False)
      else if \<not> canvas_context b then (s\<lparr>isCapturingFrame := False\<rparr>, False)
      else (s\<lparr>isCapturingFrame := True\<rparr>, True))"

definition handleCaptureFrame_settle :: "browser \<Rightarrow> session \<Rightarrow> session" where
  "handleCaptureFrame_settle b s =
     (case toBlob_png b of
        None \<Rightarrow> s\<lparr>isCapturingFrame := False\<rparr>
      | Some blob \<Rightarrow>
          s\<lparr>capturedTime := video_currentTime b, capturedFrameUrl := Some (createObjectURL b blob),
            isImagePreviewVisible := True, editedFrameUrl := None, externalImageFile := None,
            isCapturingFrame := False\<rparr>)"

text \<open>
  \<open>handleEditAgain\<close> has no \<open>try\<close> block: when the fetch is rejected the handler ends
  with an unhandled rejection and writes nothing. The URL fetched is the one of the closure.
\<close>

definition handleEditAgain_settle :: "browser \<Rightarrow> string option \<Rightarrow> session \<Rightarrow> session" where
  "handleEditAgain_settle b url s =
     (case url of
        None \<Rightarrow> s
      | Some u \<Rightarrow>
          (case fetch_blob b u of
             Inl e \<Rightarrow> s
           | Inr blob \<Rightarrow> s\<lparr>capturedFrameUrl := Some (createObjectURL b blob), editedFrameUrl := None\<rparr>))"

subsection \<open>Buttons\<close>

text \<open>
  A click reaches its handler only when the button is rendered and not disabled. The three
  capture buttons sit next to the video element; the edit buttons sit in the preview panel,
  shown when the preview is visible and a preview URL is set; the size buttons sit in the
  popup and carry no \<open>disabled\<close> attribute.
\<close>

definition preview_panel :: "session \<Rightarrow> bool" where
  "preview_panel s = (isImagePreviewVisible s \<and> capturedFrameUrl s \<noteq> None)"

definition click_captureFrame :: "browser \<Rightarrow> session \<Rightarrow> session \<times> bool" where
  "click_captureFrame b s =
     (if \<not> videoRef_current s \<or> isAnyTaskRunning s then (s, False)
      else handleCaptureFrame_start b s)"

definition click_captureText :: "browser \<Rightarrow> session \<Rightarrow> session \<times> bool" where
  "click_captureText b s =
     (if \<not> videoRef_current s \<or> isAnyTaskRunning s then (s, False)
      else handleCaptureText_start b s)"

definition click_reWriteFrame :: "browser \<Rightarrow> session \<Rightarrow> session \<times> bool" where
  "click_reWriteFrame b s =
     (if \<not> videoRef_current s \<or> isAnyTaskRunning s then (s, False)
      else handleReWriteFrame_start b s)"

definition click_editImage :: "session \<Rightarrow> session \<times> (string option \<times> js_string) option" where
  "click_editImage s =
     (if \<not> preview_panel s \<or> trim_is_empty (editPrompt s) \<or> isAnyTaskRunning s then (s, None)
      else handleEditImage_start s)"

definition click_quickEdit ::
  "string \<Rightarrow> session \<Rightarrow> session \<times> (string option \<times> js_string) option" where
  "click_quickEdit key s =
     (if \<not> preview_panel s \<or> key \<notin> set (map fst QUICK_EDIT_PROMPTS) \<or> isAnyTaskRunning s
      then (s, None)
      else handleQuickEdit_start key s)"

definition click_popupSize ::
  "int \<Rightarrow> session \<Rightarrow> session \<times> (string option \<times> js_string) option" where
  "click_popupSize size' s =
     (if \<not> preview_panel s \<or> \<not> isReWritePopupOpen s \<or> size' \<notin> set REWRITE_SIZES then (s, None)
      else handleReWriteFromPopup_start size' s)"

definition click_popupToggle :: "session \<Rightarrow> session" where
  "click_popupToggle s =
     (if \<not> preview_panel s \<or> isAnyTaskRunning s then s
      else s\<lparr>isReWritePopupOpen := \<not> isReWritePopupOpen s\<rparr>)"

subsection \<open>Events of a session\<close>

text \<open>
  Everything that can write the session: the clicks, the callbacks of file readers and media
  elements, the settling of each asynchronous operation (with the closure values it
  captured), and the change handlers of the two text areas and of the video element.
\<close>

datatype event =
    FileChange "video_file option" string
  | MetadataLoaded jsnum
  | MetadataError
  | ImageFileChange "string option" string
  | TextFileLoaded string
  | TextFileError
  | AnalyzeClick
  | AnalyzeSettled "js_error + Transcription list"
  | CaptureFrameClick
  | CaptureFrameSettled
  | CaptureTextClick
  | CaptureTextSettled
  | ReWriteFrameClick
  | ReWriteFrameSettled
  | EditImageClick
  | EditImageSettled "string option" js_string
  | QuickEditClick string
  | QuickEditSettled "string option" js_string
  | PopupSizeClick int
  | PopupSettled "string option" js_string
  | PopupToggle
  | ClickOutside
  | EditAgainSettled "string option"
  | InsertTimestampClick "(int \<times> int) option"
  | EditPromptChange js_string
  | EditableTextChange string
  | TimeUpdate real

fun handle :: "browser \<Rightarrow> event \<Rightarrow> session \<Rightarrow> session" where
  "handle b (FileChange file newUrl) s = handleFileChange file newUrl s"
| "handle b (MetadataLoaded d) s = onloadedmetadata d s"
| "handle b MetadataError s = onerror_metadata s"
| "handle b (ImageFileChange file newUrl) s = handleImageFileChange file newUrl s"
| "handle b (TextFileLoaded text) s = reader_onload text s"
| "handle b TextFileError s = reader_onerror s"
| "handle b AnalyzeClick s = fst (click_analyze s)"
| "handle b (AnalyzeSettled outcome) s = handleAnalyzeClick_settle outcome s"
| "handle b CaptureFrameClick s = fst (click_captureFrame b s)"
| "handle b CaptureFrameSettled s = handleCaptureFrame_settle b s"
| "handle b CaptureTextClick s = fst (click_captureText b s)"
| "handle b CaptureTextSettled s = fst (handleCaptureText_settle b s)"
| "handle b ReWriteFrameClick s = fst (click_reWriteFrame b s)"
| "handle b ReWriteFrameSettled s = fst (handleReWriteFrame_settle b s)"
| "handle b EditImageClick s = fst (click_editImage s)"
| "handle b (EditImageSettled url prompt) s = fst (handleEditImage_settle b url prompt s)"
| "handle b (QuickEditClick key) s = fst (click_quickEdit key s)"
| "handle b (QuickEditSettled url prompt) s = fst (performImageEdit_settle b url prompt s)"
| "handle b (PopupSizeClick size') s = fst (click_popupSize size' s)"
| "handle b (PopupSettled url prompt) s = fst (handleReWriteFromPopup_settle b url prompt s)"
| "handle b PopupToggle s = click_popupToggle s"
| "handle b ClickOutside s = s\<lparr>isReWritePopupOpen := False\<rparr>"
| "handle b (EditAgainSettled url) s = handleEditAgain_settle b url s"
| "handle b (InsertTimestampClick textarea) s = fst (handleInsertTimestamp textarea s)"
| "handle b (EditPromptChange text) s = s\<lparr>editPrompt := text\<rparr>"
| "handle b (EditableTextChange text) s = s\<lparr>editableText := text\<rparr>"
| "handle b (TimeUpdate t) s = s\<lparr>videoCurrentTime := t\<rparr>"

text \<open>One step of the session: the handler, then the render with its effect.\<close>

definition step :: "browser \<Rightarrow> event \<Rightarrow> session \<Rightarrow> session" where
  "step b e s = commit s (handle b e s)"

fun run :: "browser \<Rightarrow> event list \<Rightarrow> session \<Rightarrow> session" where
  "run b [] s = s"
| "run b (e # es) s = run b es (step b e s)"

text \<open>
  The transitions of the status that the specification lists: idle to processing, processing
  to success, processing to error, success or error to idle.
\<close>

definition listed_transitions :: "(AppStatus \<times> AppStatus) list" where
  "listed_transitions =
     [(Idle, Processing), (Processing, Success), (Processing, Error), (Success, Idle), (Error, Idle)]"

definition listed_transition :: "AppStatus \<Rightarrow> AppStatus \<Rightarrow> bool" where
  "listed_transition a b = ((a, b) \<in> set listed_transitions)"

section \<open>Concrete scenarios\<close>

text \<open>
  A response with one image among the parts of its first candidate, a response whose only
  part carries an inline blob without a media type, and a blocked response.
\<close>

definition one_image :: Response where
  "one_image =
     \<lparr>candidates = Some
        [\<lparr>content = Some \<lparr>parts = Some
            [\<lparr>part_text = Some ''here it is'', inlineData = None\<rparr>,
             \<lparr>part_text = None,
              inlineData = Some \<lparr>mimeType = Some ''image/png'', data = Some ''AAAA''\<rparr>\<rparr>,
             \<lparr>part_text = None,
              inlineData = Some \<lparr>mimeType = Some ''image/png'', data = Some ''BBBB''\<rparr>\<rparr>]\<rparr>\<rparr>]\<rparr>"

definition untyped_image :: Response where
  "untyped_image =
     \<lparr>candidates = Some
        [\<lparr>content = Some \<lparr>parts = Some
            [\<lparr>part_text = None, inlineData = Some \<lparr>mimeType = None, data = Some ''AAAA''\<rparr>\<rparr>]\<rparr>\<rparr>]\<rparr>"

definition blocked_response :: Response where
  "blocked_response = \<lparr>candidates = None\<rparr>"

text \<open>
  The cursor values visited by the sampler from a starting value, for a finite duration,
  and the frame captured at a cursor value.
\<close>

definition sampling_cursors :: "real \<Rightarrow> real \<Rightarrow> real list" where
  "sampling_cursors t D = map (\<lambda>k. t + 2 * real k) [0..<nat (\<lfloor>(D - t) / 2\<rfloor> + 1)]"

definition frame_at :: "video_file \<Rightarrow> real \<Rightarrow> VideoFrame" where
  "frame_at v t = \<lparr>frame_timestamp = Math_round t, imageData = picture v t\<rparr>"

text \<open>
  Video files of 130 seconds, of 5 seconds, and one with a negative duration; none
  reports an error. A transcription service that always answers with the two entries of
  the end-to-end scenario.
\<close>

definition clip :: "real \<Rightarrow> video_file" where
  "clip D = \<lparr>file_name = ''clip.mp4'', duration = Num D, metadata_loads = True,
              decode_error_at = (\<lambda>t. False), picture = (\<lambda>t. ''/9j/'')\<rparr>"

definition mock_ai :: "VideoFrame list \<Rightarrow> js_error + raw_result list" where
  "mock_ai frames = Inr [(Num 0, ''HELLO''), (Num 4, ''WORLD'')]"

text \<open>
  The whole analyze operation on a session: the click, the analysis of the file of the
  closure, and the continuation, each followed by its render. \<open>None\<close> when the analysis
  never settles.
\<close>

definition analyze_operation ::
  "bool \<Rightarrow> (VideoFrame list \<Rightarrow> js_error + raw_result list) \<Rightarrow> browser \<Rightarrow> session
     \<Rightarrow> session option" where
  "analyze_operation ctx ai b s =
     (case snd (click_analyze s) of
        None \<Rightarrow> Some (step b AnalyzeClick s)
      | Some f \<Rightarrow>
          (case fst (analyzeVideoForText ctx ai f) of
             None \<Rightarrow> None
           | Some outcome \<Rightarrow> Some (step b (AnalyzeSettled outcome) (step b AnalyzeClick s))))"

text \<open>
  Each AI-triggering action as one operation: the click and, when the operation goes on,
  its continuation; the result is the session afterwards and the requests sent to the model.
\<close>

definition captureText_operation :: "browser \<Rightarrow> session \<Rightarrow> session \<times> image_request list" where
  "captureText_operation b s =
     (case click_captureText b s of
        (s', False) \<Rightarrow> (s', [])
      | (s', True) \<Rightarrow> handleCaptureText_settle b s')"

definition reWriteFrame_operation :: "browser \<Rightarrow> session \<Rightarrow> session \<times> image_request list" where
  "reWriteFrame_operation b s =
     (case click_reWriteFrame b s of
        (s', False) \<Rightarrow> (s', [])
      | (s', True) \<Rightarrow> handleReWriteFrame_settle b s')"

definition editImage_operation :: "browser \<Rightarrow> session \<Rightarrow> session \<times> image_request list" where
  "editImage_operation b s =
     (case click_editImage s of
        (s', None) \<Rightarrow> (s', [])
      | (s', Some (url, prompt)) \<Rightarrow> handleEditImage_settle b url prompt s')"

definition quickEdit_operation ::
  "browser \<Rightarrow> string \<Rightarrow> session \<Rightarrow> session \<times> image_request list" where
  "quickEdit_operation b key s =
     (case click_quickEdit key s of
        (s', None) \<Rightarrow> (s', [])
      | (s', Some (url, prompt)) \<Rightarrow> performImageEdit_settle b url prompt s')"

definition popupSize_operation ::
  "browser \<Rightarrow> int \<Rightarrow> session \<Rightarrow> session \<times> image_request list" where
  "popupSize_operation b size' s =
     (case click_popupSize size' s of
        (s', None) \<Rightarrow> (s', [])
      | (s', Some (url, prompt)) \<Rightarrow> handleReWriteFromPopup_settle b url prompt s')"

text \<open>
  A browser in which everything works and the model answers with an image, one in which
  every fetch is rejected, and one in which the model call fails.
\<close>

definition working_browser :: browser where
  "working_browser =
     \<lparr>canvas_context = True, video_currentTime = 1, toDataURL_jpeg = ''/9j/'',
      toBlob_png = Some \<lparr>blob_type = ''image/png'', blob_content = ''iVBOR''\<rparr>,
      createObjectURL = (\<lambda>blob. ''blob:'' @ blob_content blob),
      blobToBase64 = (\<lambda>blob. Inr (blob_content blob)),
      fetch_blob = (\<lambda>url. Inr \<lparr>blob_type = ''image/png'', blob_content = url\<rparr>),
      generateContent = (\<lambda>req. Inr one_image)\<rparr>"

definition offline_browser :: browser where
  "offline_browser = working_browser\<lparr>fetch_blob := (\<lambda>url. Inl ''Failed to fetch'')\<rparr>"

definition quota_browser :: browser where
  "quota_browser = working_browser\<lparr>generateContent := (\<lambda>req. Inl ''quota exceeded'')\<rparr>"

text \<open>A session with a loaded video, and the same session after a click on capture text.\<close>

definition loaded_session :: session where
  "loaded_session =
     run working_browser [FileChange (Some (clip 130)) ''blob:video'', MetadataLoaded (Num 130)]
       initial_session"

definition capturing_session :: session where
  "capturing_session = step working_browser CaptureTextClick loaded_session"

text \<open>A session that shows a preview image and an edited image.\<close>

definition edited_session :: session where
  "edited_session =
     loaded_session\<lparr>capturedFrameUrl := Some ''blob:frame'', isImagePreviewVisible := True,
                     editedFrameUrl := Some ''blob:edited''\<rparr>"

text \<open>A session in which an analysis has returned no entries.\<close>

definition analysed_session :: session where
  "analysed_session =
     run working_browser
       [FileChange (Some (clip 130)) ''blob:video'', AnalyzeClick, AnalyzeSettled (Inr [])]
       initial_session"

definition no_blob_browser :: browser where
  "no_blob_browser = working_browser\<lparr>toBlob_png := None\<rparr>"

text \<open>The decimal digits, as a set of characters.\<close>

definition digit_chars :: "char set" where
  "digit_chars = set ''0123456789''"






text \<open>
  A video file whose media element reports an infinite duration, and one whose metadata
  cannot be read; a session in which the latter has been chosen.
\<close>

definition endless_clip :: video_file where
  "endless_clip = (clip 0)\<lparr>duration := PosInf\<rparr>"

definition unreadable_clip :: video_file where
  "unreadable_clip = (clip 130)\<lparr>metadata_loads := False\<rparr>"

definition unreadable_session :: session where
  "unreadable_session =
     run working_browser [FileChange (Some unreadable_clip) ''blob:video'', MetadataError]
       initial_session"



section \<open>Properties of the timestamp format\<close>

lemma digits_lt10: "n < 10 \<Longrightarrow> digits n = [digit_char n]"
  by (simp add: digits.simps)

lemma digits_lt100: "10 \<le> n \<Longrightarrow> n < 100 \<Longrightarrow> digits n = [digit_char (n div 10), digit_char (n mod 10)]"
  by (subst digits.simps) (simp add: digits_lt10)

lemma padStart_two_digits:
  "n < 100 \<Longrightarrow> padStart 2 (CHR ''0'') (digits n) = [digit_char (n div 10), digit_char (n mod 10)]"
proof (cases "n < 10")
  case True
  then show ?thesis by (simp add: padStart_def digits_lt10 digit_char_def)
next
  case False
  assume "n < 100"
  with False show ?thesis by (simp add: padStart_def digits_lt100)
qed

lemma digit_char_props: "d < 10 \<Longrightarrow> is_digit (digit_char d) \<and> digit_val (digit_char d) = d \<and> digit_char d \<noteq> CHR '':''"
proof -
  assume "d < 10"
  then have "d \<in> {0,1,2,3,4,5,6,7,8,9}" by auto
  then show ?thesis by (auto simp: digit_char_def is_digit_def digit_val_def)
qed

lemma mm_ss_small:
  assumes "0 \<le> m" "m < 100" "0 \<le> k" "k < 100"
  shows "mm_ss m k = [digit_char (nat m div 10), digit_char (nat m mod 10), CHR '':'',
                       digit_char (nat k div 10), digit_char (nat k mod 10)]"
  using assms by (simp add: mm_ss_def String_int_def padStart_two_digits)

lemma formatTimestamp_int:
  "0 \<le> s \<Longrightarrow> formatTimestamp (Num (of_int s)) = mm_ss (s div 60) (s mod 60)"
  by (simp add: js_rem_int_def floor_divide_of_int_eq[where ?'a = real, of s 60, simplified])

lemma formatDuration_int:
  "0 \<le> s \<Longrightarrow> formatDuration (Some (Num (of_int s))) = mm_ss (s div 60) (s mod 60)"
proof -
  assume s: "0 \<le> s"
  have q: "\<lfloor>real_of_int s / 60\<rfloor> = s div 60"
    using floor_divide_of_int_eq[where ?'a = real, of s 60] by simp
  have t: "js_trunc (real_of_int s / 60) = s div 60"
    using s q by (simp add: js_trunc_def)
  have "js_rem (real_of_int s) 60 = real_of_int (s - 60 * (s div 60))"
    by (simp add: js_rem_def t)
  also have "s - 60 * (s div 60) = s mod 60"
    by (simp add: minus_mult_div_eq_mod)
  finally have r: "\<lfloor>js_rem (real_of_int s) 60\<rfloor> = s mod 60" by simp
  show ?thesis by (simp add: q r)
qed

lemma parse_digits:
  assumes "a < 10" "b < 10" "c < 10" "d < 10"
  shows "parse_mm_ss [digit_char a, digit_char b, CHR '':'', digit_char c, digit_char d]
           = Some (60 * (10 * a + b) + (10 * c + d))"
  using digit_char_props[OF assms(1)] digit_char_props[OF assms(2)]
        digit_char_props[OF assms(3)] digit_char_props[OF assms(4)]
  by simp

text \<open>
  C3. Formatting seconds as \<open>mm:ss\<close>: for every integer \<open>s\<close> from 0 to 3599 both formatting
  functions give two digits, a colon and two digits (minutes and seconds, each padded with a
  zero to two digits), both give the same string, and reading that string back as
  \<open>60 * mm + ss\<close> gives \<open>s\<close> again; 65 formats as \<open>01:05\<close> and 0 as \<open>00:00\<close>.
\<close>

theorem timestamp_format_roundtrip:
  assumes "0 \<le> s" and "s \<le> 3599"
  shows "formatTimestamp (Num (of_int s)) =
           [digit_char (nat (s div 60) div 10), digit_char (nat (s div 60) mod 10), CHR '':'',
            digit_char (nat (s mod 60) div 10), digit_char (nat (s mod 60) mod 10)]
       \<and> formatDuration (Some (Num (of_int s))) = formatTimestamp (Num (of_int s))
       \<and> parse_mm_ss (formatTimestamp (Num (of_int s))) = Some (nat s)
       \<and> parse_mm_ss (formatDuration (Some (Num (of_int s)))) = Some (nat s)
       \<and> formatTimestamp (Num 65) = ''01:05'' \<and> formatTimestamp (Num 0) = ''00:00''
       \<and> formatDuration (Some (Num 65)) = ''01:05'' \<and> formatDuration (Some (Num 0)) = ''00:00''"
proof -
  let ?m = "s div 60" and ?k = "s mod 60"
  have m: "0 \<le> ?m" "?m < 60" and k: "0 \<le> ?k" "?k < 60"
    using assms by auto
  have shape: "mm_ss ?m ?k =
      [digit_char (nat ?m div 10), digit_char (nat ?m mod 10), CHR '':'',
       digit_char (nat ?k div 10), digit_char (nat ?k mod 10)]"
    using m k by (intro mm_ss_small) auto
  have ft: "formatTimestamp (Num (of_int s)) = mm_ss ?m ?k"
    using assms(1) by (rule formatTimestamp_int)
  have fd: "formatDuration (Some (Num (of_int s))) = mm_ss ?m ?k"
    using assms(1) by (rule formatDuration_int)
  have val: "60 * (10 * (nat ?m div 10) + nat ?m mod 10) + (10 * (nat ?k div 10) + nat ?k mod 10)
      = nat s"
    using assms(1) by (simp add: nat_div_distrib nat_mod_distrib)
  have "parse_mm_ss (mm_ss ?m ?k) =
      Some (60 * (10 * (nat ?m div 10) + nat ?m mod 10) + (10 * (nat ?k div 10) + nat ?k mod 10))"
    using m k unfolding shape by (intro parse_digits) auto
  then have rt: "parse_mm_ss (mm_ss ?m ?k) = Some (nat s)"
    by (simp only: val)
  have e1: "formatTimestamp (Num 65) = ''01:05''" "formatTimestamp (Num 0) = ''00:00''"
    using formatTimestamp_int[of 65] formatTimestamp_int[of 0]
    by (simp_all add: mm_ss_small digit_char_def del: formatTimestamp.simps)
  have e2: "formatDuration (Some (Num 65)) = ''01:05''" "formatDuration (Some (Num 0)) = ''00:00''"
    using formatDuration_int[of 65] formatDuration_int[of 0]
    by (simp_all add: mm_ss_small digit_char_def del: formatDuration.simps)
  show ?thesis
    using ft fd shape rt e1 e2 by (simp del: formatTimestamp.simps formatDuration.simps)
qed

theorem timestamp_format_roundtrip_witness:
  "(0::int) \<le> 754 \<and> (754::int) \<le> 3599
   \<and> formatTimestamp (Num 754) = ''12:34'' \<and> parse_mm_ss (formatTimestamp (Num 754)) = Some 754"
proof -
  have "formatTimestamp (Num (of_int 754)) = ''12:34''
      \<and> parse_mm_ss (formatTimestamp (Num (of_int 754))) = Some (nat 754)"
    using timestamp_format_roundtrip[of 754]
    by (simp add: digit_char_def is_digit_def digit_val_def del: formatTimestamp.simps formatDuration.simps)
  then show ?thesis by (simp add: is_digit_def digit_val_def del: formatTimestamp.simps)
qed

section \<open>Properties of the result formatter\<close>

lemma js_join_snoc: "xs \<noteq> [] \<Longrightarrow> js_join sep (xs @ [y]) = js_join sep xs @ sep @ y"
  by (induction sep xs rule: js_join.induct) auto

lemma js_join_nonempty: "xs \<noteq> [] \<Longrightarrow> \<forall>x \<in> set xs. x \<noteq> [] \<Longrightarrow> js_join sep xs \<noteq> []"
  by (induction sep xs rule: js_join.induct) auto

lemma entry_line_nonempty: "entry_line item \<noteq> []"
  by (simp add: entry_line_def)

lemma transcriptionLines_truthy:
  "js_join [newline] (map entry_line ts) \<noteq> [] \<longleftrightarrow> ts \<noteq> []"
proof (cases ts)
  case Nil
  then show ?thesis by simp
next
  case (Cons a list)
  then have "js_join [newline] (map entry_line ts) \<noteq> []"
    by (intro js_join_nonempty) (auto simp: entry_line_nonempty)
  with Cons show ?thesis by simp
qed

text \<open>
  C2, as stated, fails in the initial session: the status is idle, the entry list is empty,
  and the formatter returns the empty string, not the clip-length line.
\<close>

theorem formattedText_counterexample:
  "formattedText (status initial_session) (transcriptions initial_session)
      (videoDuration initial_session) = []
   \<and> durationLine (videoDuration initial_session) = ''clip length 00:00''
   \<and> formattedText (status initial_session) (transcriptions initial_session)
      (videoDuration initial_session) \<noteq> durationLine (videoDuration initial_session)"
  by (simp add: formattedText_def initial_session_def durationLine_def)

text \<open>
  C2, amended. When the status is success, the formatter returns the lines
  \<open>timestamp text\<close> of the entries, in order, followed by the line \<open>clip length\<close> with the
  formatted duration, all joined by line feeds; for the empty entry list it returns that last
  line alone. For every other status it returns the empty string. The result is a function
  of the status, the entries and the duration alone.
\<close>

theorem formattedText_success:
  "formattedText Success ts d = js_join [newline] (map entry_line ts @ [durationLine d])
   \<and> formattedText Success [] d = durationLine d
   \<and> durationLine d = ''clip length '' @ formatDuration d
   \<and> entry_line item = timestamp item @ '' '' @ entry_text item
   \<and> formattedText Idle ts d = [] \<and> formattedText Processing ts d = []
   \<and> formattedText Error ts d = []"
proof -
  have "formattedText Success ts d = js_join [newline] (map entry_line ts @ [durationLine d])"
  proof (cases "ts = []")
    case True
    then show ?thesis by (simp add: formattedText_def)
  next
    case False
    then have "js_join [newline] (map entry_line ts) \<noteq> []"
      by (simp add: transcriptionLines_truthy)
    moreover have "js_join [newline] (map entry_line ts @ [durationLine d])
        = js_join [newline] (map entry_line ts) @ [newline] @ durationLine d"
      using False by (intro js_join_snoc) simp
    ultimately show ?thesis by (simp add: formattedText_def)
  qed
  moreover have "formattedText Success [] d = durationLine d"
    by (simp add: formattedText_def)
  ultimately show ?thesis
    by (simp add: durationLine_def entry_line_def formattedText_def)
qed

section \<open>Properties of the image operations\<close>

lemma first_image_typed:
  "\<not> list_ex untyped_blob ps \<Longrightarrow>
     first_image ps =
       (case find is_inline_image ps of None \<Rightarrow> NotFound | Some p \<Rightarrow> Returned (payload p))"
  by (induction ps)
     (auto simp: is_inline_image_def payload_def untyped_blob_def split: option.splits)

lemma scan_response_single:
  "candidates r = None \<or> candidates r = Some [] \<or> candidates r = Some [c] \<Longrightarrow>
     scan_response r = first_image (all_parts r)"
  by (auto simp: scan_response_def all_parts_def candidate_parts_def split: option.splits)

text \<open>
  On a response with at most one candidate whose inline blobs all carry a media type, both
  operations return the payload of the first inline image part and fail with their
  no-image error exactly when there is none.
\<close>

lemma image_scan_single_candidate:
  assumes "candidates r = None \<or> candidates r = Some [] \<or> candidates r = Some [c]"
    and "\<not> list_ex untyped_blob (all_parts r)"
  shows "processFrameForTextExtraction (\<lambda>req. Inr r) d =
           (case find is_inline_image (all_parts r) of
              Some p \<Rightarrow> Inr (payload p) | None \<Rightarrow> Inl no_generated_image)"
    and "editImage (\<lambda>req. Inr r) d m prompt =
           (case find is_inline_image (all_parts r) of
              Some p \<Rightarrow> Inr (payload p) | None \<Rightarrow> Inl no_edited_image)"
  using first_image_typed[OF assms(2)] scan_response_single[OF assms(1)]
  by (simp_all add: processFrameForTextExtraction_def editImage_def split: option.splits)

lemma image_scan_examples:
  "processFrameForTextExtraction (\<lambda>req. Inr one_image) d = Inr (Some ''AAAA'')"
  "editImage (\<lambda>req. Inr one_image) d m prompt = Inr (Some ''AAAA'')"
  "processFrameForTextExtraction (\<lambda>req. Inr blocked_response) d = Inl no_generated_image"
  "editImage (\<lambda>req. Inr blocked_response) d m prompt = Inl no_edited_image"
  by (simp_all add: processFrameForTextExtraction_def editImage_def scan_response_def
      one_image_def blocked_response_def)

text \<open>
  C8. Both operations are to return the payload of the first inline image part and to fail
  with the explicit no-image error exactly when the response has no inline image part. On
  a response whose only part carries an inline blob without a media type, the response has no
  inline image part, and both operations fail with the \<open>TypeError\<close> of the unguarded
  \<open>startsWith\<close> call, which is neither of the two no-image errors.
\<close>

theorem untyped_blob_throws:
  "\<not> list_ex is_inline_image (all_parts untyped_image)
   \<and> processFrameForTextExtraction (\<lambda>req. Inr untyped_image) ''QUJD''
       = Inl startsWith_of_undefined
   \<and> editImage (\<lambda>req. Inr untyped_image) ''QUJD'' ''image/png'' (code_units ''make it green'')
       = Inl startsWith_of_undefined
   \<and> startsWith_of_undefined \<noteq> no_generated_image
   \<and> startsWith_of_undefined \<noteq> no_edited_image"
  by (simp add: untyped_image_def all_parts_def candidate_parts_def is_inline_image_def
      processFrameForTextExtraction_def editImage_def scan_response_def
      startsWith_of_undefined_def no_generated_image_def no_edited_image_def)

section \<open>Properties of the frame sampler\<close>

lemma sampling_cursors_Nil: "D < t \<Longrightarrow> sampling_cursors t D = []"
proof -
  assume "D < t"
  then have "(D - t) / 2 < 0" by simp
  then have "\<lfloor>(D - t) / 2\<rfloor> < 0" by linarith
  then have "nat (\<lfloor>(D - t) / 2\<rfloor> + 1) = 0" by linarith
  then show ?thesis by (simp only: sampling_cursors_def upt_0 list.map)
qed

lemma sampling_cursors_Cons:
  assumes "t \<le> D"
  shows "sampling_cursors t D = t # sampling_cursors (t + 2) D"
proof -
  have "0 \<le> (D - t) / 2" using assms by simp
  then have nn: "0 \<le> \<lfloor>(D - t) / 2\<rfloor>" by linarith
  have "(D - (t + 2)) / 2 = (D - t) / 2 - 1" by (simp add: field_simps)
  then have fl: "\<lfloor>(D - (t + 2)) / 2\<rfloor> = \<lfloor>(D - t) / 2\<rfloor> - 1"
    by (simp only: floor_diff_one)
  have len: "nat (\<lfloor>(D - t) / 2\<rfloor> + 1) = Suc (nat (\<lfloor>(D - (t + 2)) / 2\<rfloor> + 1))"
    unfolding fl using nn by linarith
  have "map (\<lambda>k. t + 2 * real k) [0..<Suc n] = t # map (\<lambda>k. t + 2 + 2 * real k) [0..<n]" for n
    by (simp add: upt_conv_Cons map_Suc_upt[symmetric] del: upt_Suc) 
  then show ?thesis
    unfolding sampling_cursors_def len by simp
qed

lemma captureFrame_finite:
  assumes "duration v = Num D"
  shows "captureFrame v t fs =
           Some (if list_ex (decode_error_at v) (sampling_cursors t D)
                 then Inl ''Error processing video file.''
                 else Inr (fs @ map (frame_at v) (sampling_cursors t D)))"
proof (induction "nat (\<lfloor>(D - t) / 2\<rfloor> + 1)" arbitrary: t fs)
  case 0
  then have "\<lfloor>(D - t) / 2\<rfloor> < 0" by linarith
  then have "(D - t) / 2 < 0" by linarith
  then have lt: "D < t" by simp
  then show ?case
    by (subst captureFrame.simps) (simp add: assms sampling_cursors_Nil)
next
  case (Suc n)
  then have "0 \<le> \<lfloor>(D - t) / 2\<rfloor>" by linarith
  then have "0 \<le> (D - t) / 2" by linarith
  then have le: "t \<le> D" by simp
  have "(D - (t + 2)) / 2 = (D - t) / 2 - 1" by (simp add: field_simps)
  then have "\<lfloor>(D - (t + 2)) / 2\<rfloor> = \<lfloor>(D - t) / 2\<rfloor> - 1"
    by (simp only: floor_diff_one)
  with Suc(2) have n: "n = nat (\<lfloor>(D - (t + 2)) / 2\<rfloor> + 1)" by linarith
  note IH = Suc(1)[OF n]
  from le have nlt: "\<not> D < t" by simp
  show ?case
    by (subst captureFrame.simps)
       (simp add: assms nlt sampling_cursors_Cons[OF le] IH FRAME_EXTRACTION_INTERVAL_def
          frame_at_def)
qed

lemma sampling_cursors_zero:
  "sampling_cursors 0 D = map (\<lambda>k. 2 * real k) [0..<nat \<lfloor>D / 2\<rfloor> + 1]" if "0 \<le> D"
proof -
  have "0 \<le> D / 2" using that by simp
  then have "0 \<le> \<lfloor>D / 2\<rfloor>" by linarith
  then have "nat (\<lfloor>D / 2\<rfloor> + 1) = nat \<lfloor>D / 2\<rfloor> + 1" by linarith
  then show ?thesis by (simp add: sampling_cursors_def)
qed

lemma Math_round_even: "Math_round (2 * real k) = 2 * int k"
proof -
  have "2 * real k + 1 / 2 = real_of_int (2 * int k) + 1 / 2" by simp
  then have "\<lfloor>2 * real k + 1 / 2\<rfloor> = 2 * int k + \<lfloor>1 / 2 :: real\<rfloor>"
    by (metis floor_add_int add.commute)
  then show ?thesis by (simp add: Math_round_def)
qed

lemma captureFrame_never_settles:
  assumes "captureFrame v t fs = Some y"
  shows "\<not> ((duration v = PosInf \<or> duration v = NaN) \<and> (\<forall>x. \<not> decode_error_at v x))"
proof (rule captureFrame.raw_induct[where P = "\<lambda>v t fs y.
    \<not> ((duration v = PosInf \<or> duration v = NaN) \<and> (\<forall>x. \<not> decode_error_at v x))", OF _ assms])
  fix loop :: "video_file \<Rightarrow> real \<Rightarrow> VideoFrame list \<Rightarrow> (js_error + VideoFrame list) option"
  fix v currentTime frames outcome
  assume IH: "\<And>a b c y. loop a b c = Some y \<Longrightarrow>
      \<not> ((duration a = PosInf \<or> duration a = NaN) \<and> (\<forall>x. \<not> decode_error_at a x))"
  assume eq: "(if js_greater currentTime (duration v) then Some (Inr frames)
      else if decode_error_at v currentTime then Some (Inl ''Error processing video file.'')
      else loop v (currentTime + FRAME_EXTRACTION_INTERVAL)
             (frames @ [\<lparr>frame_timestamp = Math_round currentTime,
                          imageData = picture v currentTime\<rparr>])) = Some outcome"
  show "\<not> ((duration v = PosInf \<or> duration v = NaN) \<and> (\<forall>x. \<not> decode_error_at v x))"
  proof
    assume h: "(duration v = PosInf \<or> duration v = NaN) \<and> (\<forall>x. \<not> decode_error_at v x)"
    then have ng: "\<not> js_greater currentTime (duration v)" by auto
    from eq ng h have "loop v (currentTime + FRAME_EXTRACTION_INTERVAL)
             (frames @ [\<lparr>frame_timestamp = Math_round currentTime,
                          imageData = picture v currentTime\<rparr>]) = Some outcome"
      by simp
    from IH[OF this] h show False by blast
  qed
qed

lemma captureFrame_endless:
  "duration v = PosInf \<or> duration v = NaN \<Longrightarrow> \<forall>x. \<not> decode_error_at v x \<Longrightarrow>
     captureFrame v t fs = None"
  using captureFrame_never_settles[of v t fs] by (cases "captureFrame v t fs") auto

text \<open>
  C1, as stated for every video, fails where the media element reports an infinite
  duration: the cursor never exceeds the duration and the sampler never settles. The same
  holds where the metadata cannot be read.
\<close>

theorem endless_sampling:
  "duration endless_clip = PosInf \<and> metadata_loads endless_clip
   \<and> extractFramesFromVideo True endless_clip = None
   \<and> extractFramesFromVideo True unreadable_clip = None"
proof -
  have "captureFrame endless_clip 0 [] = None"
    by (rule captureFrame_endless) (simp_all add: endless_clip_def clip_def)
  then show ?thesis
    by (simp add: extractFramesFromVideo_def endless_clip_def unreadable_clip_def clip_def)
qed

text \<open>
  C1, amended. For every video whose metadata loads and whose reported duration \<open>D\<close> is a
  finite number of seconds, not negative, sampled every 2 seconds: the sampler always
  settles; unless the media element reports an error at one of the seek targets it resolves
  with one frame per cursor value \<open>0, 2, 4, ...\<close> not above \<open>D\<close>, that is
  \<open>floor (D / 2) + 1\<close> frames, at most \<open>ceiling (D / 2) + 1\<close>; the timestamps of the frames
  are the cursor values, strictly increasing; every cursor value at which a frame is
  captured is at most \<open>D\<close>, and the next cursor value exceeds \<open>D\<close>, where the loop stops.
\<close>

theorem frame_sampler:
  assumes "duration v = Num D" and "0 \<le> D" and "metadata_loads v"
  shows "extractFramesFromVideo True v =
           Some (if list_ex (decode_error_at v) (map (\<lambda>k. 2 * real k) [0..<nat \<lfloor>D / 2\<rfloor> + 1])
                 then Inl ''Error processing video file.''
                 else Inr (map (\<lambda>k. \<lparr>frame_timestamp = 2 * int k, imageData = picture v (2 * real k)\<rparr>)
                             [0..<nat \<lfloor>D / 2\<rfloor> + 1]))
       \<and> nat \<lfloor>D / 2\<rfloor> + 1 \<le> nat \<lceil>D / FRAME_EXTRACTION_INTERVAL\<rceil> + 1
       \<and> (\<forall>k < nat \<lfloor>D / 2\<rfloor> + 1. 2 * real k \<le> D)
       \<and> D < 2 * real (nat \<lfloor>D / 2\<rfloor> + 1)
       \<and> (extractFramesFromVideo True v = Some (Inr frames) \<longrightarrow>
            length frames \<le> nat \<lceil>D / FRAME_EXTRACTION_INTERVAL\<rceil> + 1
            \<and> sorted_wrt (<) (map frame_timestamp frames)
            \<and> map frame_timestamp frames = map (\<lambda>k. 2 * int k) [0..<length frames]
            \<and> (\<forall>k < length frames. 2 * real k \<le> D))"
proof -
  let ?n = "nat \<lfloor>D / 2\<rfloor> + 1"
  have "0 \<le> D / 2" using assms(2) by simp
  then have fl: "0 \<le> \<lfloor>D / 2\<rfloor>" by linarith
  have run: "extractFramesFromVideo True v =
           Some (if list_ex (decode_error_at v) (map (\<lambda>k. 2 * real k) [0..<?n])
                 then Inl ''Error processing video file.''
                 else Inr (map (\<lambda>k. \<lparr>frame_timestamp = 2 * int k, imageData = picture v (2 * real k)\<rparr>)
                             [0..<?n]))"
    using assms(3)
    by (simp add: extractFramesFromVideo_def captureFrame_finite[OF assms(1)]
        sampling_cursors_zero[OF assms(2)] frame_at_def Math_round_even comp_def)
  have bound: "?n \<le> nat \<lceil>D / FRAME_EXTRACTION_INTERVAL\<rceil> + 1"
    unfolding FRAME_EXTRACTION_INTERVAL_def
    using floor_le_ceiling[of "D / 2"] by (simp add: nat_mono)
  have inside: "2 * real k \<le> D" if "k < ?n" for k
  proof -
    from that fl have "int k \<le> \<lfloor>D / 2\<rfloor>" by linarith
    then have "real_of_int (int k) \<le> D / 2" by (simp add: le_floor_iff)
    then show ?thesis by simp
  qed
  have stop: "D < 2 * real ?n"
  proof -
    have "D / 2 < real_of_int (\<lfloor>D / 2\<rfloor> + 1)" by linarith
    also have "real_of_int (\<lfloor>D / 2\<rfloor> + 1) = real ?n" using fl by simp
    finally show ?thesis by simp
  qed
  have frames: "length frames \<le> nat \<lceil>D / FRAME_EXTRACTION_INTERVAL\<rceil> + 1
            \<and> sorted_wrt (<) (map frame_timestamp frames)
            \<and> map frame_timestamp frames = map (\<lambda>k. 2 * int k) [0..<length frames]
            \<and> (\<forall>k < length frames. 2 * real k \<le> D)"
    if "extractFramesFromVideo True v = Some (Inr frames)"
  proof -
    from that run have f: "frames = map (\<lambda>k. \<lparr>frame_timestamp = 2 * int k,
        imageData = picture v (2 * real k)\<rparr>) [0..<?n]"
      by (simp split: if_splits)
    then have len: "length frames = ?n" by simp
    have ts: "map frame_timestamp frames = map (\<lambda>k. 2 * int k) [0..<length frames]"
      unfolding len by (simp add: f comp_def)
    have "sorted_wrt (<) (map (\<lambda>k. 2 * int k) [0..<m])" for m
      by (simp add: sorted_wrt_map)
    with ts have "sorted_wrt (<) (map frame_timestamp frames)" by simp
    with ts len bound inside show ?thesis by simp
  qed
  from run bound inside stop frames show ?thesis by blast
qed




theorem frame_sampler_witness:
  "duration (clip 5) = Num 5 \<and> (0::real) \<le> 5 \<and> metadata_loads (clip 5)
   \<and> extractFramesFromVideo True (clip 5) =
       Some (Inr [\<lparr>frame_timestamp = 0, imageData = ''/9j/''\<rparr>,
                  \<lparr>frame_timestamp = 2, imageData = ''/9j/''\<rparr>,
                  \<lparr>frame_timestamp = 4, imageData = ''/9j/''\<rparr>])
   \<and> (3::nat) \<le> nat \<lceil>5 / FRAME_EXTRACTION_INTERVAL\<rceil> + 1"
proof -
  have n: "nat \<lfloor>(5::real) / 2\<rfloor> + 1 = 3" by simp
  have u: "[0..<3] = [0, 1, 2::nat]" by code_simp
  show ?thesis
    using frame_sampler[of "clip 5" 5 "[]"] unfolding n u
    by (simp add: clip_def)
qed


section \<open>Properties of the batch transcription\<close>

lemma extract_negative: "extractFramesFromVideo True (clip (- 1)) = Some (Inr [])"
  by (simp add: extractFramesFromVideo_def clip_def) (subst captureFrame.simps, simp)


lemma extract_five:
  "extractFramesFromVideo True (clip 5) =
       Some (Inr [\<lparr>frame_timestamp = 0, imageData = ''/9j/''\<rparr>,
                  \<lparr>frame_timestamp = 2, imageData = ''/9j/''\<rparr>,
                  \<lparr>frame_timestamp = 4, imageData = ''/9j/''\<rparr>])"
proof -
  have u: "[0..<3] = [0, 1, 2::nat]" by code_simp
  have c: "sampling_cursors 0 5 = [0, 2, 4]"
    by (simp add: sampling_cursors_def u)
  show ?thesis
    by (simp add: extractFramesFromVideo_def captureFrame_finite[of _ 5] c frame_at_def
        Math_round_def clip_def)
qed


text \<open>
  C10. When the extraction resolves with an empty frame list, \<open>analyzeVideoForText\<close> fails
  with the message \<open>Could not extract any frames from the video.\<close> and sends no request to
  the model; every request it ever sends carries a non-empty frame sequence.
\<close>

theorem no_frames_no_request:
  "(extractFramesFromVideo ctx v = Some (Inr []) \<longrightarrow>
      analyzeVideoForText ctx ai v =
        (Some (Inl ''Could not extract any frames from the video.''), []))
   \<and> (\<forall>frames \<in> set (snd (analyzeVideoForText ctx ai v)). frames \<noteq> [])"
  by (auto simp: analyzeVideoForText_def split: option.splits sum.splits)


theorem no_frames_no_request_witness:
  "extractFramesFromVideo True (clip (- 1)) = Some (Inr [])
   \<and> analyzeVideoForText True mock_ai (clip (- 1)) =
        (Some (Inl ''Could not extract any frames from the video.''), [])
   \<and> snd (analyzeVideoForText True mock_ai (clip 5)) =
        [[\<lparr>frame_timestamp = 0, imageData = ''/9j/''\<rparr>,
          \<lparr>frame_timestamp = 2, imageData = ''/9j/''\<rparr>,
          \<lparr>frame_timestamp = 4, imageData = ''/9j/''\<rparr>]]
   \<and> [] \<notin> set (snd (analyzeVideoForText True mock_ai (clip 5)))"
proof -
  have a: "snd (analyzeVideoForText True mock_ai (clip 5)) =
        [[\<lparr>frame_timestamp = 0, imageData = ''/9j/''\<rparr>,
          \<lparr>frame_timestamp = 2, imageData = ''/9j/''\<rparr>,
          \<lparr>frame_timestamp = 4, imageData = ''/9j/''\<rparr>]]"
    by (simp add: analyzeVideoForText_def extract_five mock_ai_def)
  show ?thesis
    using no_frames_no_request[of True "clip (- 1)" mock_ai]
          no_frames_no_request[of True "clip 5" mock_ai] a extract_negative
    by auto
qed


lemma list_ex_never: "list_ex (\<lambda>t. False) xs = False"
  by (simp add: list_ex_iff)

lemma extract_130_nonempty:
  "\<exists>f fs. extractFramesFromVideo True (clip 130) = Some (Inr (f # fs))"
proof -
  have "sampling_cursors 0 130 = 0 # sampling_cursors 2 130"
    using sampling_cursors_Cons[of 0 130] by simp
  then show ?thesis
    by (simp add: extractFramesFromVideo_def captureFrame_finite[of _ 130] clip_def
        list_ex_never)
qed

lemma mock_transcriptions:
  "map format_result [(Num 0, ''HELLO''), (Num 4, ''WORLD'')] =
     [\<lparr>timestamp = ''00:00'', entry_text = ''HELLO''\<rparr>,
      \<lparr>timestamp = ''00:04'', entry_text = ''WORLD''\<rparr>]"
  using formatTimestamp_int[of 0] formatTimestamp_int[of 4]
  by (simp add: format_result_def mm_ss_small digit_char_def del: formatTimestamp.simps)


lemma analyze_130:
  "fst (analyzeVideoForText True mock_ai (clip 130)) =
     Some (Inr [\<lparr>timestamp = ''00:00'', entry_text = ''HELLO''\<rparr>,
                \<lparr>timestamp = ''00:04'', entry_text = ''WORLD''\<rparr>])"
proof -
  obtain f fs where "extractFramesFromVideo True (clip 130) = Some (Inr (f # fs))"
    using extract_130_nonempty by blast
  then have "fst (analyzeVideoForText True mock_ai (clip 130)) =
      Some (Inr (map format_result [(Num 0, ''HELLO''), (Num 4, ''WORLD'')]))"
    by (simp add: analyzeVideoForText_def mock_ai_def del: list.map)
  then show ?thesis by (simp only: mock_transcriptions)
qed

lemma duration_130: "formatDuration (Some (Num 130)) = ''02:10''"
  using formatDuration_int[of 130]
  by (simp add: mm_ss_small digit_char_def del: formatDuration.simps)


lemma loaded_130:
  "run b [FileChange (Some (clip 130)) url, MetadataLoaded (Num 130)] initial_session
     = initial_session\<lparr>videoUrl := Some url, videoFile := Some (clip 130),
         videoDuration := Some (Num 130)\<rparr>"
  by (simp add: step_def commit_def handleFileChange_def onloadedmetadata_def
        initial_session_def formattedText_of_def formattedText_def)

lemma clicked_130:
  "step b AnalyzeClick (initial_session\<lparr>videoUrl := Some url, videoFile := Some (clip 130),
         videoDuration := Some (Num 130)\<rparr>)
     = initial_session\<lparr>videoUrl := Some url, videoFile := Some (clip 130),
         videoDuration := Some (Num 130), status := Processing\<rparr>
   \<and> snd (click_analyze (initial_session\<lparr>videoUrl := Some url, videoFile := Some (clip 130),
         videoDuration := Some (Num 130)\<rparr>)) = Some (clip 130)"
  by (simp add: step_def commit_def click_analyze_def handleAnalyzeClick_start_def
        initial_session_def formattedText_of_def formattedText_def)

lemma settled_130:
  "step b (AnalyzeSettled (Inr [\<lparr>timestamp = ''00:00'', entry_text = ''HELLO''\<rparr>,
                \<lparr>timestamp = ''00:04'', entry_text = ''WORLD''\<rparr>]))
      (initial_session\<lparr>videoUrl := Some url, videoFile := Some (clip 130),
         videoDuration := Some (Num 130), status := Processing\<rparr>)
     = initial_session\<lparr>videoUrl := Some url, videoFile := Some (clip 130),
         videoDuration := Some (Num 130), status := Success,
         transcriptions := [\<lparr>timestamp = ''00:00'', entry_text = ''HELLO''\<rparr>,
                \<lparr>timestamp = ''00:04'', entry_text = ''WORLD''\<rparr>],
         editableText := ''00:00 HELLO'' @ [newline] @ ''00:04 WORLD'' @ [newline]
                                @ ''clip length 02:10''\<rparr>"
  by (simp add: step_def commit_def handleAnalyzeClick_settle_def
        initial_session_def formattedText_of_def formattedText_def entry_line_def
        durationLine_def duration_130 del: formatDuration.simps)



text \<open>
  C5. End to end: a session in which a 130 second video has been loaded, analysed with
  the sampling interval of 2 seconds by a model that answers
  \<open>[{timestamp: 0, text: HELLO}, {timestamp: 4, text: WORLD}]\<close>, ends with the transcript
  text \<open>00:00 HELLO\<close>, \<open>00:04 WORLD\<close>, \<open>clip length 02:10\<close> on three lines; the raw
  timestamps 0 and 4 format as \<open>00:00\<close> and \<open>00:04\<close> and the duration as \<open>02:10\<close>.
\<close>

theorem end_to_end_130:
  "map_option editableText
     (analyze_operation True mock_ai b
        (run b [FileChange (Some (clip 130)) url, MetadataLoaded (Num 130)] initial_session))
   = Some (''00:00 HELLO'' @ [newline] @ ''00:04 WORLD'' @ [newline] @ ''clip length 02:10'')
   \<and> map format_result [(Num 0, ''HELLO''), (Num 4, ''WORLD'')] =
        [\<lparr>timestamp = ''00:00'', entry_text = ''HELLO''\<rparr>,
         \<lparr>timestamp = ''00:04'', entry_text = ''WORLD''\<rparr>]
   \<and> formatDuration (Some (Num 130)) = ''02:10''"
proof -
  let ?s0 = "initial_session\<lparr>videoUrl := Some url, videoFile := Some (clip 130),
         videoDuration := Some (Num 130)\<rparr>"
  let ?ts = "[\<lparr>timestamp = ''00:00'', entry_text = ''HELLO''\<rparr>,
              \<lparr>timestamp = ''00:04'', entry_text = ''WORLD''\<rparr>]"
  have c: "snd (click_analyze ?s0) = Some (clip 130)"
    using clicked_130 by blast
  have "analyze_operation True mock_ai b ?s0 =
      Some (step b (AnalyzeSettled (Inr ?ts)) (step b AnalyzeClick ?s0))"
    by (simp only: analyze_operation_def c analyze_130 option.case)
  then have "map_option editableText (analyze_operation True mock_ai b ?s0) =
      Some (''00:00 HELLO'' @ [newline] @ ''00:04 WORLD'' @ [newline] @ ''clip length 02:10'')"
    by (simp only: clicked_130[THEN conjunct1] settled_130 option.map) simp
  then show ?thesis
    by (simp only: loaded_130 mock_transcriptions duration_130 simp_thms)
qed

section \<open>Properties of the session\<close>

lemma commit_same: "commit s s = s"
  by (simp add: commit_def)

lemma status_commit: "status (commit s s') = status s'"
  by (simp add: commit_def)

text \<open>
  C6. Busy-flag gating. Whenever one of the five busy flags is set, each of the five
  AI-triggering actions (capture text, re-write frame, edit image, quick edit, re-write from
  the popup) is a no-op: the session is unchanged and no request is sent to the model. The
  buttons of the first four are disabled by \<open>isAnyTaskRunning\<close>; the handlers of re-write frame
  and of the popup test \<open>isAnyTaskRunning\<close> themselves.
\<close>

theorem busy_flag_gating:
  assumes "isAnyTaskRunning s"
  shows "captureText_operation b s = (s, [])
       \<and> reWriteFrame_operation b s = (s, [])
       \<and> editImage_operation b s = (s, [])
       \<and> quickEdit_operation b key s = (s, [])
       \<and> popupSize_operation b size' s = (s, [])
       \<and> step b CaptureTextClick s = s
       \<and> step b ReWriteFrameClick s = s
       \<and> step b EditImageClick s = s
       \<and> step b (QuickEditClick key) s = s
       \<and> step b (PopupSizeClick size') s = s
       \<and> handleReWriteFrame_start b s = (s, False)
       \<and> handleReWriteFromPopup_start size' s = (s, None)"
proof -
  have c: "click_captureText b s = (s, False)" "click_reWriteFrame b s = (s, False)"
    "click_editImage s = (s, None)" "click_quickEdit key s = (s, None)"
    "click_popupSize size' s = (s, None)"
    using assms
    by (simp_all add: click_captureText_def click_reWriteFrame_def click_editImage_def
        click_quickEdit_def click_popupSize_def handleReWriteFromPopup_start_def)
  have h: "handleReWriteFrame_start b s = (s, False)"
    "handleReWriteFromPopup_start size' s = (s, None)"
    using assms by (simp_all add: handleReWriteFrame_start_def handleReWriteFromPopup_start_def)
  show ?thesis
    by (simp add: c h captureText_operation_def reWriteFrame_operation_def
        editImage_operation_def quickEdit_operation_def popupSize_operation_def step_def
        commit_same)
qed

lemma loaded_session_eq:
  "loaded_session = initial_session\<lparr>videoUrl := Some ''blob:video'', videoFile := Some (clip 130),
         videoDuration := Some (Num 130)\<rparr>"
  unfolding loaded_session_def by (rule loaded_130)

lemma capturing_session_eq:
  "capturing_session = loaded_session\<lparr>isCapturing := True, capturedTime := 1\<rparr>"
  by (simp add: capturing_session_def step_def commit_def click_captureText_def
      handleCaptureText_start_def videoRef_current_def isAnyTaskRunning_def
      loaded_session_eq initial_session_def working_browser_def formattedText_of_def)

lemma captureText_try_working:
  "captureText_try working_browser = Inr ''blob:data:image/png;base64,AAAA''"
  by (simp add: captureText_try_def processFrameForTextExtraction_def scan_response_def
      working_browser_def one_image_def payload_to_url_def png_data_url_def)

theorem busy_flag_gating_witness:
  "isAnyTaskRunning capturing_session
   \<and> captureText_operation working_browser capturing_session = (capturing_session, [])
   \<and> reWriteFrame_operation working_browser capturing_session = (capturing_session, [])
   \<and> quickEdit_operation working_browser ''BG1'' capturing_session = (capturing_session, [])
   \<and> fst (captureText_operation working_browser loaded_session) \<noteq> loaded_session
   \<and> snd (captureText_operation working_browser loaded_session) = [isolate_request ''/9j/'']"
proof -
  have busy: "isAnyTaskRunning capturing_session"
    by (simp add: capturing_session_eq isAnyTaskRunning_def)
  have free: "click_captureText working_browser loaded_session = (capturing_session, True)"
    by (simp add: capturing_session_eq click_captureText_def
      handleCaptureText_start_def videoRef_current_def isAnyTaskRunning_def
      loaded_session_eq initial_session_def working_browser_def)
  have diff: "isImagePreviewVisible (fst (handleCaptureText_settle working_browser capturing_session))"
    "\<not> isImagePreviewVisible loaded_session"
    by (simp_all add: handleCaptureText_settle_def loaded_session_eq initial_session_def
        captureText_try_working)
  have req: "snd (handleCaptureText_settle working_browser capturing_session) = [isolate_request ''/9j/'']"
    by (simp add: handleCaptureText_settle_def working_browser_def)
  from diff have "fst (captureText_operation working_browser loaded_session) \<noteq> loaded_session"
    unfolding captureText_operation_def free by auto
  moreover have "snd (captureText_operation working_browser loaded_session) = [isolate_request ''/9j/'']"
    unfolding captureText_operation_def free using req by simp
  ultimately show ?thesis
    using busy busy_flag_gating[OF busy, of working_browser "''BG1''" 100] by simp
qed

lemma status_captureText_settle: "status (fst (handleCaptureText_settle b s)) = status s"
  by (simp add: handleCaptureText_settle_def split: sum.splits)

lemma status_reWriteFrame_settle: "status (fst (handleReWriteFrame_settle b s)) = status s"
  by (simp add: handleReWriteFrame_settle_def Let_def split: option.splits sum.splits)

lemma status_performImageEdit_settle:
  "status (fst (performImageEdit_settle b url prompt s)) = status s"
  by (simp add: performImageEdit_settle_def split: sum.splits)

lemma status_editImage_settle:
  "status (fst (handleEditImage_settle b url prompt s)) = status s"
  by (simp add: handleEditImage_settle_def Let_def status_performImageEdit_settle)

lemma status_popup_settle:
  "status (fst (handleReWriteFromPopup_settle b url prompt s)) = status s"
  by (simp add: handleReWriteFromPopup_settle_def split: sum.splits)

lemma status_clicks:
  "status (fst (click_captureFrame b s)) = status s"
  "status (fst (click_captureText b s)) = status s"
  "status (fst (click_reWriteFrame b s)) = status s"
  "status (fst (click_editImage s)) = status s"
  "status (fst (click_quickEdit key s)) = status s"
  "status (fst (click_popupSize size' s)) = status s"
  "status (click_popupToggle s) = status s"
  by (simp_all add: click_captureFrame_def handleCaptureFrame_start_def
      click_captureText_def handleCaptureText_start_def
      click_reWriteFrame_def handleReWriteFrame_start_def
      click_editImage_def handleEditImage_start_def performImageEdit_start_def
      click_quickEdit_def handleQuickEdit_start_def
      click_popupSize_def handleReWriteFromPopup_start_def click_popupToggle_def
      split: option.splits)

lemma status_others:
  "status (handleCaptureFrame_settle b s) = status s"
  "status (handleEditAgain_settle b url s) = status s"
  "status (fst (handleInsertTimestamp textarea s)) = status s"
  "status (handleImageFileChange file newUrl s) = status s"
  "status (onloadedmetadata d s) = status s"
  "status (onerror_metadata s) = status s"
  "status (reader_onload text s) = status s"
  by (simp_all add: handleCaptureFrame_settle_def handleEditAgain_settle_def
      handleInsertTimestamp_def handleImageFileChange_def onloadedmetadata_def
      onerror_metadata_def reader_onload_def Let_def
      split: option.splits sum.splits prod.splits)

lemma status_analyze_click:
  "status (fst (click_analyze s)) =
     (if videoFile s = None \<or> status s = Processing then status s else Processing)"
  by (simp add: click_analyze_def handleAnalyzeClick_start_def split: option.splits)

text \<open>
  C7, amended. Every step of the session leaves the status unchanged or changes it in one of
  these ways: to processing on a click on analyze with a file loaded, from idle, success or
  error; to success when an analysis settles with results; to error when an analysis settles
  with a failure or when reading a text file fails; to idle when a new video file is chosen.
\<close>

theorem status_changes:
  "status (step b e s) = status s
   \<or> (e = AnalyzeClick \<and> (\<exists>f. videoFile s = Some f)
       \<and> status s \<in> {Idle, Success, Error} \<and> status (step b e s) = Processing)
   \<or> ((\<exists>results. e = AnalyzeSettled (Inr results)) \<and> status (step b e s) = Success)
   \<or> ((\<exists>err. e = AnalyzeSettled (Inl err)) \<and> status (step b e s) = Error)
   \<or> (e = TextFileError \<and> status (step b e s) = Error)
   \<or> ((\<exists>f url. e = FileChange (Some f) url) \<and> status (step b e s) = Idle)"
proof (cases e)
  case (FileChange chosen newUrl)
  then show ?thesis
    by (cases chosen) (simp_all add: step_def status_commit handleFileChange_def)
next
  case AnalyzeClick
  then show ?thesis
    by (cases "status s")
       (auto simp: step_def status_commit status_analyze_click)
next
  case (AnalyzeSettled outcome)
  then show ?thesis
    by (cases outcome) (simp_all add: step_def status_commit handleAnalyzeClick_settle_def)
next
  case TextFileError
  then show ?thesis by (simp add: step_def status_commit reader_onerror_def)
qed (simp_all add: step_def status_commit status_captureText_settle status_reWriteFrame_settle
      status_performImageEdit_settle status_editImage_settle status_popup_settle
      status_clicks status_others)

lemma analysed_session_status: "status analysed_session = Success"
  by (simp add: analysed_session_def step_def status_commit handleAnalyzeClick_settle_def)

lemma analysed_session_file: "videoFile analysed_session = Some (clip 130)"
  by (simp add: analysed_session_def step_def commit_def handleAnalyzeClick_settle_def
      click_analyze_def handleAnalyzeClick_start_def handleFileChange_def initial_session_def)

text \<open>
  C7, as stated, fails after a successful analysis: the analyze button is enabled, and a
  click takes the status from success to processing, which is not among the listed
  transitions.
\<close>

theorem status_counterexample:
  "status analysed_session = Success
   \<and> status (step working_browser AnalyzeClick analysed_session) = Processing
   \<and> \<not> listed_transition Success Processing"
  by (simp add: analysed_session_status analysed_session_file step_def status_commit
      status_analyze_click listed_transition_def listed_transitions_def)

theorem status_changes_witness:
  "videoFile analysed_session = Some (clip 130)
   \<and> status analysed_session \<in> {Idle, Success, Error}
   \<and> status (step working_browser AnalyzeClick analysed_session) = Processing
   \<and> status (step working_browser (AnalyzeSettled (Inl ''quota exceeded''))
         (step working_browser AnalyzeClick analysed_session)) = Error"
  using status_changes[of working_browser AnalyzeClick analysed_session]
        status_changes[of working_browser "AnalyzeSettled (Inl ''quota exceeded'')"
          "step working_browser AnalyzeClick analysed_session"]
  by (simp add: analysed_session_status analysed_session_file step_def status_commit
      status_analyze_click handleAnalyzeClick_settle_def)

lemma captureText_settle_recovers:
  "\<not> isCapturing (fst (handleCaptureText_settle b s))
   \<and> (captureText_try b = Inl e \<longrightarrow>
        error (fst (handleCaptureText_settle b s)) =
          Some (message_or e ''An error occurred while capturing the text frame.''))"
  by (simp add: handleCaptureText_settle_def split: sum.splits)

lemma reWriteFrame_settle_recovers:
  "\<not> isReWriting (fst (handleReWriteFrame_settle b s))
   \<and> (toBlob_png b = None \<longrightarrow>
        error (fst (handleReWriteFrame_settle b s)) = Some ''Failed to create blob from canvas.'')
   \<and> (toBlob_png b = Some blob \<longrightarrow> fst (reWrite_try b blob) = Inl e \<longrightarrow>
        error (fst (handleReWriteFrame_settle b s)) =
          Some (message_or e ''An error occurred during the re-write process.''))"
  by (simp add: handleReWriteFrame_settle_def Let_def message_or_def split: option.splits sum.splits)

lemma performImageEdit_settle_recovers:
  "\<not> isEditing (fst (performImageEdit_settle b url prompt s))
   \<and> quickEditLoadingKey (fst (performImageEdit_settle b url prompt s)) = None
   \<and> (fst (edit_try b url prompt) = Inl e \<longrightarrow>
        error (fst (performImageEdit_settle b url prompt s)) =
          Some (message_or e ''An error occurred while editing the image.''))"
  by (simp add: performImageEdit_settle_def split: sum.splits)

lemma editImage_settle_recovers:
  "\<not> isEditing (fst (handleEditImage_settle b url prompt s))
   \<and> (fst (edit_try b url prompt) = Inl e \<longrightarrow>
        error (fst (handleEditImage_settle b url prompt s)) =
          Some (message_or e ''An error occurred while editing the image.''))"
  using performImageEdit_settle_recovers[of b url prompt s e]
  by (simp add: handleEditImage_settle_def Let_def)

lemma popup_settle_recovers:
  "\<not> isReWritingFromPopup (fst (handleReWriteFromPopup_settle b url prompt s))
   \<and> (fst (edit_try b url prompt) = Inl e \<longrightarrow>
        error (fst (handleReWriteFromPopup_settle b url prompt s)) =
          Some (message_or e ''An error occurred while re-writing the image.''))"
  by (simp add: handleReWriteFromPopup_settle_def split: sum.splits)

lemma analyze_settle_recovers:
  "status (handleAnalyzeClick_settle (Inl e) s) = Error
   \<and> error (handleAnalyzeClick_settle (Inl e) s) =
        Some (message_or e ''An unknown error occurred during analysis.'')"
  by (simp add: handleAnalyzeClick_settle_def)

lemma no_context_recovers:
  "videoRef_current s \<and> videoFile s \<noteq> None \<and> \<not> isAnyTaskRunning s \<and> \<not> canvas_context b \<longrightarrow>
     click_captureText b s =
       (s\<lparr>error := Some ''Could not get canvas context'', isCapturing := False\<rparr>, False)
     \<and> click_reWriteFrame b s =
       (s\<lparr>error := Some ''Could not get canvas context'', isReWriting := False\<rparr>, False)"
  by (simp add: click_captureText_def handleCaptureText_start_def click_reWriteFrame_def
      handleReWriteFrame_start_def isAnyTaskRunning_def message_or_def)

lemma flags_captureText_start:
  "\<not> isAnyTaskRunning s \<Longrightarrow> click_captureText b s = (s', False) \<Longrightarrow> \<not> isAnyTaskRunning s'"
  by (auto simp: click_captureText_def handleCaptureText_start_def isAnyTaskRunning_def
      split: if_splits)

lemma flags_captureText_settle:
  "click_captureText b s = (s', True) \<Longrightarrow> \<not> isAnyTaskRunning s \<Longrightarrow>
     \<not> isAnyTaskRunning (fst (handleCaptureText_settle b s'))"
  by (auto simp: click_captureText_def handleCaptureText_start_def isAnyTaskRunning_def
      handleCaptureText_settle_def split: if_splits sum.splits)

lemma captureText_operation_idle:
  "\<not> isAnyTaskRunning s \<Longrightarrow> \<not> isAnyTaskRunning (fst (captureText_operation b s))"
proof -
  assume idle: "\<not> isAnyTaskRunning s"
  obtain s' started where c: "click_captureText b s = (s', started)" by (cases "click_captureText b s")
  show ?thesis
  proof (cases started)
    case True
    with c idle show ?thesis
      using flags_captureText_settle[of b s s'] by (simp add: captureText_operation_def)
  next
    case False
    with c idle show ?thesis
      using flags_captureText_start[of s b s'] by (simp add: captureText_operation_def)
  qed
qed

lemma reWriteFrame_operation_idle:
  "\<not> isAnyTaskRunning s \<Longrightarrow> \<not> isAnyTaskRunning (fst (reWriteFrame_operation b s))"
  by (auto simp: reWriteFrame_operation_def click_reWriteFrame_def handleReWriteFrame_start_def
      handleReWriteFrame_settle_def isAnyTaskRunning_def Let_def
      split: if_splits sum.splits option.splits)

lemma editImage_operation_idle:
  "\<not> isAnyTaskRunning s \<Longrightarrow> \<not> isAnyTaskRunning (fst (editImage_operation b s))"
  by (auto simp: editImage_operation_def click_editImage_def handleEditImage_start_def
      handleEditImage_settle_def performImageEdit_start_def performImageEdit_settle_def
      isAnyTaskRunning_def Let_def split: if_splits sum.splits)

lemma quickEdit_operation_idle:
  "\<not> isAnyTaskRunning s \<Longrightarrow> \<not> isAnyTaskRunning (fst (quickEdit_operation b key s))"
  by (auto simp: quickEdit_operation_def click_quickEdit_def handleQuickEdit_start_def
      performImageEdit_start_def performImageEdit_settle_def
      isAnyTaskRunning_def split: if_splits sum.splits option.splits)

lemma popupSize_operation_idle:
  "\<not> isAnyTaskRunning s \<Longrightarrow> \<not> isAnyTaskRunning (fst (popupSize_operation b size' s))"
  by (auto simp: popupSize_operation_def click_popupSize_def handleReWriteFromPopup_start_def
      handleReWriteFromPopup_settle_def isAnyTaskRunning_def split: if_splits sum.splits)

lemma unreadable_session_eq:
  "unreadable_session = initial_session\<lparr>videoUrl := Some ''blob:video'',
      videoFile := Some unreadable_clip, error := Some ''Could not read video metadata.''\<rparr>"
  by (simp add: unreadable_session_def step_def commit_def handleFileChange_def
      onerror_metadata_def initial_session_def formattedText_of_def formattedText_def)

text \<open>
  C9. Every error of every operation is to be caught at the boundary of the operation,
  stored as a message, with the busy state cleared. Two operations miss this. Analysing a
  file whose metadata cannot be read never settles, since the sampler installs its error
  handler only once the metadata has loaded: the status stays at processing and no message
  is stored. \<open>handleEditAgain\<close> awaits its fetch outside any \<open>try\<close> block, unlike
  \<open>performImageEdit\<close> and \<open>handleReWriteFromPopup\<close>: when the fetch is rejected nothing is
  stored and the session is left as it was.
\<close>

theorem unrecovered_errors:
  "metadata_loads unreadable_clip = False
   \<and> fst (analyzeVideoForText True mock_ai unreadable_clip) = None
   \<and> snd (click_analyze unreadable_session) = Some unreadable_clip
   \<and> analyze_operation True mock_ai working_browser unreadable_session = None
   \<and> status (step working_browser AnalyzeClick unreadable_session) = Processing
   \<and> error (step working_browser AnalyzeClick unreadable_session) = None
   \<and> editedFrameUrl edited_session = Some ''blob:edited''
   \<and> fetch_blob offline_browser ''blob:edited'' = Inl ''Failed to fetch''
   \<and> error (handleEditAgain_settle offline_browser (editedFrameUrl edited_session) edited_session) = None
   \<and> handleEditAgain_settle offline_browser (editedFrameUrl edited_session) edited_session
       = edited_session"
proof -
  have m: "metadata_loads unreadable_clip = False"
    by (simp add: unreadable_clip_def clip_def)
  have a: "fst (analyzeVideoForText True mock_ai unreadable_clip) = None"
    by (simp add: analyzeVideoForText_def extractFramesFromVideo_def m)
  have c: "click_analyze unreadable_session =
      (unreadable_session\<lparr>status := Processing, error := None, transcriptions := [],
         editableText := []\<rparr>, Some unreadable_clip)"
    by (simp add: unreadable_session_eq click_analyze_def handleAnalyzeClick_start_def
        initial_session_def)
  have o: "analyze_operation True mock_ai working_browser unreadable_session = None"
    by (simp add: analyze_operation_def c a)
  have s: "status (step working_browser AnalyzeClick unreadable_session) = Processing"
    "error (step working_browser AnalyzeClick unreadable_session) = None"
    by (simp_all add: step_def c commit_def)
  have e: "editedFrameUrl edited_session = Some ''blob:edited''
   \<and> fetch_blob offline_browser ''blob:edited'' = Inl ''Failed to fetch''
   \<and> error (handleEditAgain_settle offline_browser (editedFrameUrl edited_session) edited_session) = None
   \<and> handleEditAgain_settle offline_browser (editedFrameUrl edited_session) edited_session
       = edited_session"
    by (simp add: edited_session_def offline_browser_def working_browser_def
      handleEditAgain_settle_def loaded_session_eq initial_session_def)
  have c2: "snd (click_analyze unreadable_session) = Some unreadable_clip"
    by (simp only: c snd_conv)
  from m a c2 o s e show ?thesis by blast
qed


text \<open>
  Where the code has a \<open>try\<close> block (capture text, re-write frame, image edit and quick edit,
  re-write from the popup) an error raised inside is caught and stored as the error message
  (the message of the error, or the fallback text of the operation when that message is
  empty), and the busy flag of the operation is cleared on the success path and on the
  failure path alike, so that a session with no busy flag set has none set after the
  operation. A failure of the analysis that arrives as a rejection is stored and sets the
  status to error. Capture frame clears its flag on every path.
\<close>

lemma errors_recovered:
  "(\<not> isCapturing (fst (handleCaptureText_settle b s))
    \<and> (captureText_try b = Inl e \<longrightarrow>
         error (fst (handleCaptureText_settle b s)) =
           Some (message_or e ''An error occurred while capturing the text frame.'')))
   \<and> (\<not> isReWriting (fst (handleReWriteFrame_settle b s))
    \<and> (toBlob_png b = None \<longrightarrow>
         error (fst (handleReWriteFrame_settle b s)) = Some ''Failed to create blob from canvas.'')
    \<and> (toBlob_png b = Some blob \<longrightarrow> fst (reWrite_try b blob) = Inl e \<longrightarrow>
         error (fst (handleReWriteFrame_settle b s)) =
           Some (message_or e ''An error occurred during the re-write process.'')))
   \<and> (\<not> isEditing (fst (performImageEdit_settle b url prompt s))
    \<and> quickEditLoadingKey (fst (performImageEdit_settle b url prompt s)) = None
    \<and> (fst (edit_try b url prompt) = Inl e \<longrightarrow>
         error (fst (performImageEdit_settle b url prompt s)) =
           Some (message_or e ''An error occurred while editing the image.'')))
   \<and> (\<not> isEditing (fst (handleEditImage_settle b url prompt s))
    \<and> (fst (edit_try b url prompt) = Inl e \<longrightarrow>
         error (fst (handleEditImage_settle b url prompt s)) =
           Some (message_or e ''An error occurred while editing the image.'')))
   \<and> (\<not> isReWritingFromPopup (fst (handleReWriteFromPopup_settle b url prompt s))
    \<and> (fst (edit_try b url prompt) = Inl e \<longrightarrow>
         error (fst (handleReWriteFromPopup_settle b url prompt s)) =
           Some (message_or e ''An error occurred while re-writing the image.'')))
   \<and> (status (handleAnalyzeClick_settle (Inl e) s) = Error
    \<and> error (handleAnalyzeClick_settle (Inl e) s) =
         Some (message_or e ''An unknown error occurred during analysis.''))
   \<and> (videoRef_current s \<and> videoFile s \<noteq> None \<and> \<not> isAnyTaskRunning s \<and> \<not> canvas_context b \<longrightarrow>
         click_captureText b s =
           (s\<lparr>error := Some ''Could not get canvas context'', isCapturing := False\<rparr>, False)
         \<and> click_reWriteFrame b s =
           (s\<lparr>error := Some ''Could not get canvas context'', isReWriting := False\<rparr>, False))
   \<and> \<not> isCapturingFrame (handleCaptureFrame_settle b s)
   \<and> (\<not> isAnyTaskRunning s \<longrightarrow>
         \<not> isAnyTaskRunning (fst (captureText_operation b s))
         \<and> \<not> isAnyTaskRunning (fst (reWriteFrame_operation b s))
         \<and> \<not> isAnyTaskRunning (fst (editImage_operation b s))
         \<and> \<not> isAnyTaskRunning (fst (quickEdit_operation b key s))
         \<and> \<not> isAnyTaskRunning (fst (popupSize_operation b size' s)))"
proof -
  have "\<not> isCapturingFrame (handleCaptureFrame_settle b s)"
    by (simp add: handleCaptureFrame_settle_def split: option.splits)
  then show ?thesis
    using captureText_settle_recovers[of b s e] reWriteFrame_settle_recovers[of b s blob e]
      performImageEdit_settle_recovers[of b url prompt s e]
      editImage_settle_recovers[of b url prompt s e] popup_settle_recovers[of b url prompt s e]
      analyze_settle_recovers[of e s] no_context_recovers[of s b]
      captureText_operation_idle[of s b] reWriteFrame_operation_idle[of s b]
      editImage_operation_idle[of s b] quickEdit_operation_idle[of s b key]
      popupSize_operation_idle[of s b size']
    by blast
qed

lemma captureText_try_quota: "captureText_try quota_browser = Inl ''quota exceeded''"
  by (simp add: captureText_try_def processFrameForTextExtraction_def quota_browser_def
      working_browser_def)

lemma edit_try_offline: "fst (edit_try offline_browser (Some ''blob:frame'') (code_units ''make it green'')) = Inl ''Failed to fetch''"
  by (simp add: edit_try_def offline_browser_def working_browser_def)

lemma loaded_session_idle: "\<not> isAnyTaskRunning loaded_session"
  by (simp add: loaded_session_eq isAnyTaskRunning_def initial_session_def)

lemma errors_recovered_example:
  "captureText_try quota_browser = Inl ''quota exceeded''
   \<and> isCapturing capturing_session
   \<and> \<not> isCapturing (fst (handleCaptureText_settle quota_browser capturing_session))
   \<and> error (fst (handleCaptureText_settle quota_browser capturing_session)) = Some ''quota exceeded''
   \<and> toBlob_png no_blob_browser = None
   \<and> error (fst (handleReWriteFrame_settle no_blob_browser loaded_session))
        = Some ''Failed to create blob from canvas.''
   \<and> fst (edit_try offline_browser (Some ''blob:frame'') (code_units ''make it green'')) = Inl ''Failed to fetch''
   \<and> error (fst (performImageEdit_settle offline_browser (Some ''blob:frame'') (code_units ''make it green'')
                 edited_session)) = Some ''Failed to fetch''
   \<and> error (handleAnalyzeClick_settle (Inl []) loaded_session)
        = Some ''An unknown error occurred during analysis.''"
proof -
  have q: "error (fst (handleCaptureText_settle quota_browser capturing_session)) = Some ''quota exceeded''
      \<and> \<not> isCapturing (fst (handleCaptureText_settle quota_browser capturing_session))"
    using errors_recovered[of quota_browser capturing_session "''quota exceeded''"]
      captureText_try_quota by (simp add: message_or_def)
  have n: "toBlob_png no_blob_browser = None" by (simp add: no_blob_browser_def)
  have r: "error (fst (handleReWriteFrame_settle no_blob_browser loaded_session))
        = Some ''Failed to create blob from canvas.''"
    using errors_recovered[of no_blob_browser loaded_session] n by blast
  have o: "error (fst (performImageEdit_settle offline_browser (Some ''blob:frame'') (code_units ''make it green'')
                 edited_session)) = Some ''Failed to fetch''"
    using errors_recovered[of offline_browser edited_session "''Failed to fetch''" _
        "Some ''blob:frame''" "code_units ''make it green''"] edit_try_offline
    by (simp add: message_or_def)
  have a: "error (handleAnalyzeClick_settle (Inl []) loaded_session)
        = Some ''An unknown error occurred during analysis.''"
    using errors_recovered[of _ loaded_session "[]"] by (simp add: message_or_def)
  have c: "isCapturing capturing_session" by (simp add: capturing_session_eq)
  from q n r o a c captureText_try_quota edit_try_offline show ?thesis by blast
qed

section \<open>Properties of the timestamp insertion\<close>

subsection \<open>Lines\<close>










subsection \<open>Searching for a character\<close>









subsection \<open>The line of the cursor\<close>














subsection \<open>What the handler computes\<close>









lemma test_no_newline: "timestampRegex_test l \<Longrightarrow> newline \<notin> set (take 5 l)"
  by (induction l rule: timestampRegex_test.induct) (auto simp: is_digit_def newline_def)

subsection \<open>The characters of a formatted duration\<close>

lemma digit_char_member: "k < 10 \<Longrightarrow> digit_char k \<in> digit_chars"
  using digit_char_props[of k] by (simp add: is_digit_def digit_chars_def)

lemma digits_chars: "set (digits n) \<subseteq> digit_chars"
proof (induction n rule: digits.induct)
  case (1 n)
  show ?case
  proof (cases "n < 10")
    case True
    then show ?thesis using digit_char_member[of n] by (subst digits.simps) simp
  next
    case False
    have "n mod 10 < 10" by simp
    then show ?thesis
      using False 1 digit_char_member[of "n mod 10"] by (subst digits.simps) simp
  qed
qed

lemma String_int_chars: "set (String_int i) \<subseteq> insert (CHR ''-'') digit_chars"
proof (cases "i < 0")
  case True
  then show ?thesis using digits_chars[of "nat (- i)"] by (auto simp: String_int_def)
next
  case False
  then show ?thesis using digits_chars[of "nat i"] by (auto simp: String_int_def)
qed

lemma padStart_chars: "set (padStart n c str) \<subseteq> insert c (set str)"
  by (auto simp: padStart_def)

lemma zero_digit: "CHR ''0'' \<in> digit_chars"
  by (simp add: digit_chars_def)

lemma mm_ss_chars:
  "set (mm_ss m k) \<subseteq> insert (CHR '':'') (insert (CHR ''-'') digit_chars)"
proof -
  have p: "set (padStart 2 (CHR ''0'') (String_int i)) \<subseteq> insert (CHR ''-'') digit_chars" for i
    using padStart_chars[of 2 "CHR ''0''" "String_int i"] String_int_chars[of i] zero_digit
    by blast
  have "set (mm_ss m k) = set (padStart 2 (CHR ''0'') (String_int m)) \<union> {CHR '':''}
      \<union> set (padStart 2 (CHR ''0'') (String_int k))"
    by (simp add: mm_ss_def Un_commute Un_left_commute)
  then show ?thesis using p[of m] p[of k] by blast
qed

lemma formatDuration_chars:
  "set (formatDuration (Some (Num t))) \<subseteq> insert (CHR '':'') (insert (CHR ''-'') digit_chars)"
  using mm_ss_chars[of "\<lfloor>t / 60\<rfloor>" "\<lfloor>js_rem t 60\<rfloor>"] by (simp add: Let_def)


lemma formatDuration_no_dollar: "CHR ''$'' \<notin> set (formatDuration (Some (Num t)))"
proof -
  have "CHR ''$'' \<notin> insert (CHR '':'') (insert (CHR ''-'') digit_chars)"
    by (simp add: digit_chars_def)
  then show ?thesis using formatDuration_chars[of t] by blast
qed

subsection \<open>The two branches of the handler\<close>


















end
